theory Spec2Isabelle
  imports Main
begin

section \<open>The shop API of app.js\<close>

text \<open>
  A shallow embedding of \<^verbatim>\<open>src/app.js\<close>: the Mongoose collection of shop documents, the
  directory of uploaded photos, the reverse geocoder, and the four route handlers for one
  shop. Every call the handlers make to the outside (geocoder, filesystem, collection) is
  appended to a log in program order, so that properties of what was called, and in which
  order, can be stated.
\<close>

subsection \<open>Documents\<close>

text \<open>
  The fields of \<^verbatim>\<open>shopSchema\<close>. A field taken from the request body is \<open>None\<close> when the
  body does not carry it (JavaScript's \<^verbatim>\<open>undefined\<close>), and a string otherwise.
\<close>

record location =
  latitude :: "string option"
  longitude :: "string option"
  placeName :: string

record shop =
  id_shop :: string
  ownerName :: "string option"
  contactNumber :: "string option"
  shopNumber :: "string option"
  address :: "string option"
  description :: "string option"
  photo :: string
  timestamp :: string
  location :: location

text \<open>
  \<^verbatim>\<open>required: true\<close> on a String path: Mongoose rejects a missing value and the empty
  string. The paths without it (\<^verbatim>\<open>photo\<close>, \<^verbatim>\<open>location.placeName\<close>) have a default and are
  always given a string by the handlers.
\<close>

definition required :: "string option \<Rightarrow> bool" where
  "required v = (case v of None \<Rightarrow> False | Some x \<Rightarrow> x \<noteq> [])"

definition validate :: "shop \<Rightarrow> bool" where
  "validate d \<longleftrightarrow>
     id_shop d \<noteq> [] \<and> required (ownerName d) \<and> required (contactNumber d) \<and>
     required (shopNumber d) \<and> required (address d) \<and> required (description d) \<and>
     timestamp d \<noteq> [] \<and> required (latitude (location d)) \<and>
     required (longitude (location d))"

subsection \<open>The world the handlers act on\<close>

text \<open>
  The JavaScript values a JSON reply can hold under a property. \<open>JUndefined\<close> is a
  property that is not there. A number is given by whether it is truthy (neither 0 nor
  NaN) and by the text its \<^verbatim>\<open>toString()\<close> returns, first character and rest; an object by
  its \<^verbatim>\<open>_id\<close> property when that is a string.
\<close>

datatype js =
    JUndefined
  | JNull
  | JBoolean bool
  | JNumber bool char string
  | JString string
  | JArray
  | JObject "string option"

text \<open>What \<^verbatim>\<open>||\<close> and \<^verbatim>\<open>?:\<close> test.\<close>

fun truthy :: "js \<Rightarrow> bool" where
  "truthy JUndefined = False"
| "truthy JNull = False"
| "truthy (JBoolean b) = b"
| "truthy (JNumber t c x) = t"
| "truthy (JString x) = (x \<noteq> [])"
| "truthy JArray = True"
| "truthy (JObject i) = True"

text \<open>
  Mongoose's cast of a value to the type String of a schema path; \<open>None\<close> is a CastError,
  which makes the document invalid. Strings stay, numbers and booleans give their
  \<^verbatim>\<open>toString()\<close>, an object with a non-empty string \<^verbatim>\<open>_id\<close> gives that, other objects
  and arrays fail. Mongoose leaves \<^verbatim>\<open>null\<close> and \<^verbatim>\<open>undefined\<close> uncast; the handlers cast
  only what \<^verbatim>\<open>getPlaceName\<close> returns, which is neither.
\<close>

fun castString :: "js \<Rightarrow> string option" where
  "castString (JString x) = Some x"
| "castString (JNumber t c x) = Some (c # x)"
| "castString (JBoolean b) = Some (if b then ''true'' else ''false'')"
| "castString (JObject (Some i)) = (if i \<noteq> [] then Some i else None)"
| "castString (JObject None) = None"
| "castString JArray = None"
| "castString JNull = None"
| "castString JUndefined = None"

datatype event =
    GeoRequest "string option" "string option"
  | ConsoleError string
  | ExistsSync string
  | UnlinkSync string
  | Find
  | FindOne string
  | Save shop
  | SaveUncast
  | DeleteOne string

text \<open>
  \<open>shops\<close> is the collection, in insertion order; a document's position stands for its
  storage key \<^verbatim>\<open>_id\<close>. \<open>files\<close> is the set of paths that exist, relative to the
  directory of app.js. \<open>calls\<close> is the log of outside calls; \<open>Save d\<close> is a call of
  \<^verbatim>\<open>save()\<close> on the document \<open>d\<close>, \<open>SaveUncast\<close> a call of \<^verbatim>\<open>save()\<close> on a document whose
  place name could not be cast to a string.
\<close>

record world =
  shops :: "shop list"
  files :: "string set"
  calls :: "event list"

definition call :: "event \<Rightarrow> world \<Rightarrow> world" where
  "call ev s = s\<lparr>calls := calls s @ [ev]\<rparr>"

text \<open>
  What the outside answers during one request: the geocoder's reply for given coordinates,
  the identifier \<^verbatim>\<open>uuidv4()\<close> returns, the clock reading of \<^verbatim>\<open>dateTime.create()\<close>, and
  whether the store answers each kind of operation (a store that does not answer makes
  the awaited promise reject).

  The awaited \<^verbatim>\<open>axios.get\<close> has three outcomes. \<open>Rejected m\<close>: it throws, or the access
  \<^verbatim>\<open>res.data.display_name\<close> throws (network error, a status outside 2xx, a \<^verbatim>\<open>null\<close> body),
  with the error's message. \<open>Replied v\<close>: it returns a reply whose \<^verbatim>\<open>display_name\<close> is \<open>v\<close>
  (\<open>JUndefined\<close> also for a body that is not a JSON object). \<open>Pending\<close>: it never settles;
  the call sets no timeout.
\<close>

datatype geo_reply =
    Rejected string
  | Replied js
  | Pending

record datetime =
  year :: nat
  month :: nat
  day :: nat
  hours :: nat
  minutes :: nat
  seconds :: nat

record env =
  nominatim :: "string option \<Rightarrow> string option \<Rightarrow> geo_reply"
  uuidv4 :: string
  now :: datetime
  db_find_ok :: bool
  db_save_ok :: bool
  db_delete_ok :: bool

text \<open>
  A request after the body parsers and \<^verbatim>\<open>upload.single('photo')\<close> have run. \<open>req_body\<close> is
  \<^verbatim>\<open>req.body\<close>: the form fields, or \<open>None\<close> when no parser has set it (\<^verbatim>\<open>undefined\<close>: a
  request without a body, under a version of Express that does not preset the
  property). \<open>req_file\<close> is \<^verbatim>\<open>req.file.filename\<close>, the name under which the upload already
  lies in \<^verbatim>\<open>public/uploads/\<close>, or \<open>None\<close> when the request carries no photo.
\<close>

record request =
  req_params_id :: string
  req_body :: "(string \<rightharpoonup> string) option"
  req_file :: "string option"

text \<open>The value the destructuring of a body that is there gives to a name.\<close>

definition body_field :: "request \<Rightarrow> string \<Rightarrow> string option" where
  "body_field r f = (case req_body r of None \<Rightarrow> None | Some b \<Rightarrow> b f)"

datatype json =
    Shops "shop list"
  | Doc shop
  | Message string
  | Error string

datatype response = Response nat json

subsection \<open>The timestamp\<close>

definition digit :: "nat \<Rightarrow> char" where
  "digit n = ''0123456789'' ! (n mod 10)"

function show_nat :: "nat \<Rightarrow> string" where
  "show_nat n = (if n < 10 then [digit n] else show_nat (n div 10) @ [digit n])"
  by pat_completeness auto

termination
  by (relation "measure (\<lambda>n. n)") auto

declare show_nat.simps [simp del]

definition pad :: "nat \<Rightarrow> string" where
  "pad n = (if n < 10 then CHR ''0'' # show_nat n else show_nat n)"

text \<open>
  Modelled from the spec: node-datetime's \<^verbatim>\<open>format('Y-m-d H:M:S')\<close>, which is not part of
  the repository. The spec gives the result as \<^verbatim>\<open>YYYY-MM-DD HH:MM:SS\<close>: the full year,
  then month, day, hours, minutes and seconds padded to two digits.
\<close>

definition format_YmdHMS :: "datetime \<Rightarrow> string" where
  "format_YmdHMS t =
     show_nat (year t) @ ''-'' @ pad (month t) @ ''-'' @ pad (day t) @ '' '' @
     pad (hours t) @ '':'' @ pad (minutes t) @ '':'' @ pad (seconds t)"

definition is_digit :: "char \<Rightarrow> bool" where
  "is_digit c \<longleftrightarrow> c \<in> set ''0123456789''"

text \<open>The shape \<^verbatim>\<open>YYYY-MM-DD HH:MM:SS\<close>, character by character.\<close>

fun is_YmdHMS :: "string \<Rightarrow> bool" where
  "is_YmdHMS [y1, y2, y3, y4, a, m1, m2, b, d1, d2, c, h1, h2, d, n1, n2, e, s1, s2] \<longleftrightarrow>
     is_digit y1 \<and> is_digit y2 \<and> is_digit y3 \<and> is_digit y4 \<and> a = CHR ''-'' \<and>
     is_digit m1 \<and> is_digit m2 \<and> b = CHR ''-'' \<and> is_digit d1 \<and> is_digit d2 \<and>
     c = CHR '' '' \<and> is_digit h1 \<and> is_digit h2 \<and> d = CHR '':'' \<and>
     is_digit n1 \<and> is_digit n2 \<and> e = CHR '':'' \<and> is_digit s1 \<and> is_digit s2"
| "is_YmdHMS _ \<longleftrightarrow> False"

text \<open>A clock reading of the calendar: a four-digit year and fields in their ranges.\<close>

definition calendar :: "datetime \<Rightarrow> bool" where
  "calendar t \<longleftrightarrow>
     1000 \<le> year t \<and> year t \<le> 9999 \<and> 1 \<le> month t \<and> month t \<le> 12 \<and>
     1 \<le> day t \<and> day t \<le> 31 \<and> hours t \<le> 23 \<and> minutes t \<le> 59 \<and> seconds t \<le> 59"

subsection \<open>Reverse geocoding\<close>

text \<open>
  \<^verbatim>\<open>getPlaceName\<close>. The result is \<open>None\<close> when the function never returns, because the
  awaited call never settles; otherwise it is the value the function returns, which is
  whatever \<^verbatim>\<open>display_name\<close> is when that is truthy.
\<close>

definition getPlaceName ::
  "env \<Rightarrow> string option \<Rightarrow> string option \<Rightarrow> world \<Rightarrow> js option \<times> world" where
  "getPlaceName e lat lon s =
     (let s1 = call (GeoRequest lat lon) s in
      case nominatim e lat lon of
        Replied display_name \<Rightarrow>
          (Some (if truthy display_name then display_name else JString ''Unknown location''),
           s1)
      | Rejected message \<Rightarrow>
          (Some (JString ''Unknown location''),
           call (ConsoleError (''Reverse geocoding failed: '' @ message)) s1)
      | Pending \<Rightarrow> (None, s1))"

subsection \<open>The collection\<close>

text \<open>\<^verbatim>\<open>findOne({ id })\<close>: the first document with that \<^verbatim>\<open>id\<close>, with its position.\<close>

fun findOne :: "string \<Rightarrow> shop list \<Rightarrow> (nat \<times> shop) option" where
  "findOne i [] = None"
| "findOne i (d # ds) =
     (if id_shop d = i then Some (0, d)
      else map_option (\<lambda>(k, x). (Suc k, x)) (findOne i ds))"

text \<open>\<^verbatim>\<open>deleteOne({ id })\<close>: removes the first document with that \<^verbatim>\<open>id\<close>, if any.\<close>

fun deleteOne :: "string \<Rightarrow> shop list \<Rightarrow> shop list" where
  "deleteOne i [] = []"
| "deleteOne i (d # ds) = (if id_shop d = i then ds else d # deleteOne i ds)"

datatype 'a promise = Rejects | Resolves 'a

definition Shop_find :: "env \<Rightarrow> world \<Rightarrow> shop list promise \<times> world" where
  "Shop_find e s =
     (if db_find_ok e then Resolves (shops s) else Rejects, call Find s)"

definition Shop_findOne ::
  "env \<Rightarrow> string \<Rightarrow> world \<Rightarrow> (nat \<times> shop) option promise \<times> world" where
  "Shop_findOne e i s =
     (if db_find_ok e then Resolves (findOne i (shops s)) else Rejects, call (FindOne i) s)"

text \<open>
  \<^verbatim>\<open>save()\<close> of a document made by \<^verbatim>\<open>new Shop\<close>: schema validation, then the insert, which
  the unique index on \<^verbatim>\<open>id\<close> refuses for an \<^verbatim>\<open>id\<close> already in the collection.
\<close>

definition save_new :: "env \<Rightarrow> shop \<Rightarrow> world \<Rightarrow> unit promise \<times> world" where
  "save_new e d s =
     (let s1 = call (Save d) s in
      if \<not> validate d then (Rejects, s1)
      else if \<not> db_save_ok e then (Rejects, s1)
      else if id_shop d \<in> set (map id_shop (shops s)) then (Rejects, s1)
      else (Resolves (), s1\<lparr>shops := shops s @ [d]\<rparr>))"

text \<open>
  \<^verbatim>\<open>save()\<close> of a document that \<^verbatim>\<open>findOne\<close> returned from position \<open>k\<close>: schema validation,
  then the stored document takes the values of the handler's copy.
\<close>

definition save_found :: "env \<Rightarrow> nat \<Rightarrow> shop \<Rightarrow> world \<Rightarrow> unit promise \<times> world" where
  "save_found e k d s =
     (let s1 = call (Save d) s in
      if \<not> validate d then (Rejects, s1)
      else if \<not> db_save_ok e then (Rejects, s1)
      else (Resolves (), s1\<lparr>shops := (shops s)[k := d]\<rparr>))"

definition Shop_deleteOne :: "env \<Rightarrow> string \<Rightarrow> world \<Rightarrow> unit promise \<times> world" where
  "Shop_deleteOne e i s =
     (let s1 = call (DeleteOne i) s in
      if db_delete_ok e then (Resolves (), s1\<lparr>shops := deleteOne i (shops s)\<rparr>)
      else (Rejects, s1))"

subsection \<open>The photo files\<close>

text \<open>\<^verbatim>\<open>path.join(__dirname, 'public', p)\<close> for a reference \<open>p\<close> that starts with a slash.\<close>

definition public_path :: "string \<Rightarrow> string" where
  "public_path p = ''public'' @ p"

definition existsSync :: "string \<Rightarrow> world \<Rightarrow> bool \<times> world" where
  "existsSync p s = (p \<in> files s, call (ExistsSync p) s)"

text \<open>\<^verbatim>\<open>fs.unlinkSync\<close> throws (\<open>Rejects\<close>) when the file does not exist.\<close>

definition unlinkSync :: "string \<Rightarrow> world \<Rightarrow> unit promise \<times> world" where
  "unlinkSync p s =
     (let s1 = call (UnlinkSync p) s in
      if p \<in> files s then (Resolves (), s1\<lparr>files := files s - {p}\<rparr>) else (Rejects, s1))"

text \<open>
  The removal of a document's photo, written out twice in app.js (in the update handler
  and in the delete handler):
  \<^verbatim>\<open>if (shop.photo && fs.existsSync(p)) { fs.unlinkSync(p); }\<close>
  with \<^verbatim>\<open>p = path.join(__dirname, 'public', shop.photo)\<close>.
\<close>

definition remove_photo :: "string \<Rightarrow> world \<Rightarrow> unit promise \<times> world" where
  "remove_photo ref s =
     (if ref = [] then (Resolves (), s)
      else case existsSync (public_path ref) s of
             (True, s1) \<Rightarrow> unlinkSync (public_path ref) s1
           | (False, s1) \<Rightarrow> (Resolves (), s1))"

text \<open>
  \<^verbatim>\<open>upload.single('photo')\<close> with the disk storage, which runs before the create and the
  update handler: a photo that comes with the request is written to \<^verbatim>\<open>public/uploads/\<close>
  under the name that \<open>req_file\<close> holds.
\<close>

definition upload_single :: "request \<Rightarrow> world \<Rightarrow> world" where
  "upload_single r s =
     (case req_file r of
        None \<Rightarrow> s
      | Some filename \<Rightarrow> s\<lparr>files := insert (''public/uploads/'' @ filename) (files s)\<rparr>)"

subsection \<open>The route handlers\<close>

text \<open>\<^verbatim>\<open>app.get('/api/shops')\<close>\<close>

definition get_shops :: "env \<Rightarrow> request \<Rightarrow> world \<Rightarrow> response \<times> world" where
  "get_shops e r s =
     (case Shop_find e s of
        (Rejects, s1) \<Rightarrow> (Response 500 (Error ''Failed to fetch shops''), s1)
      | (Resolves ds, s1) \<Rightarrow> (Response 200 (Shops ds), s1))"

text \<open>\<^verbatim>\<open>app.get('/api/shops/:id')\<close>\<close>

definition get_shop :: "env \<Rightarrow> request \<Rightarrow> world \<Rightarrow> response \<times> world" where
  "get_shop e r s =
     (case Shop_findOne e (req_params_id r) s of
        (Rejects, s1) \<Rightarrow> (Response 500 (Error ''Failed to fetch shop''), s1)
      | (Resolves None, s1) \<Rightarrow> (Response 404 (Error ''Shop not found''), s1)
      | (Resolves (Some (k, d)), s1) \<Rightarrow> (Response 200 (Doc d), s1))"

text \<open>
  The create and the update handler answer with \<open>Some\<close> response, or with \<open>None\<close> when
  they never answer because \<^verbatim>\<open>getPlaceName\<close> never returns. When \<^verbatim>\<open>req.body\<close> is
  \<^verbatim>\<open>undefined\<close>, the destructuring \<^verbatim>\<open>const { ownerName, ... } = req.body\<close> throws, and the
  \<^verbatim>\<open>catch\<close> block answers 500.
\<close>

text \<open>
  \<^verbatim>\<open>app.post('/api/shops')\<close>. \<open>post_doc\<close> is the document that \<^verbatim>\<open>new Shop({...})\<close>
  builds from the request and the place name, once cast to a string.
\<close>

definition post_doc :: "env \<Rightarrow> request \<Rightarrow> string \<Rightarrow> shop" where
  "post_doc e r name =
     \<lparr> id_shop = uuidv4 e,
       ownerName = body_field r ''ownerName'',
       contactNumber = body_field r ''contactNumber'',
       shopNumber = body_field r ''shopNumber'',
       address = body_field r ''address'',
       description = body_field r ''description'',
       photo = (case req_file r of
                  Some filename \<Rightarrow> ''/uploads/'' @ filename
                | None \<Rightarrow> []),
       timestamp = format_YmdHMS (now e),
       location = \<lparr> latitude = body_field r ''latitude'',
                    longitude = body_field r ''longitude'',
                    placeName = name \<rparr> \<rparr>"

definition post_save :: "env \<Rightarrow> shop \<Rightarrow> world \<Rightarrow> response option \<times> world" where
  "post_save e d s =
     (case save_new e d s of
        (Rejects, s1) \<Rightarrow> (Some (Response 500 (Error ''Failed to create shop'')), s1)
      | (Resolves u, s1) \<Rightarrow> (Some (Response 201 (Doc d)), s1))"

definition post_shop :: "env \<Rightarrow> request \<Rightarrow> world \<Rightarrow> response option \<times> world" where
  "post_shop e r s =
     (case req_body r of
        None \<Rightarrow> (Some (Response 500 (Error ''Failed to create shop'')), s)
      | Some b \<Rightarrow>
          (case getPlaceName e (b ''latitude'') (b ''longitude'') s of
             (None, s1) \<Rightarrow> (None, s1)
           | (Some v, s1) \<Rightarrow>
               (case castString v of
                  None \<Rightarrow>
                    (Some (Response 500 (Error ''Failed to create shop'')), call SaveUncast s1)
                | Some name \<Rightarrow> post_save e (post_doc e r name) s1)))"

text \<open>
  \<^verbatim>\<open>app.put('/api/shops/:id')\<close>. \<open>put_fields\<close> is the block of assignments to the found
  document for a place name that is cast to a string, \<open>put_doc\<close> adds the assignment of the
  new photo reference when there is an upload, \<open>put_save\<close> is the final \<^verbatim>\<open>save\<close> and
  response, and \<open>put_finish\<close> the same for the value that \<^verbatim>\<open>getPlaceName\<close> returned.
\<close>

definition put_fields :: "env \<Rightarrow> request \<Rightarrow> string \<Rightarrow> shop \<Rightarrow> shop" where
  "put_fields e r name d =
     d\<lparr> ownerName := body_field r ''ownerName'',
        contactNumber := body_field r ''contactNumber'',
        shopNumber := body_field r ''shopNumber'',
        address := body_field r ''address'',
        description := body_field r ''description'',
        location := \<lparr> latitude = body_field r ''latitude'',
                      longitude = body_field r ''longitude'',
                      placeName = name \<rparr>,
        timestamp := format_YmdHMS (now e) \<rparr>"

definition put_save :: "env \<Rightarrow> nat \<Rightarrow> shop \<Rightarrow> world \<Rightarrow> response option \<times> world" where
  "put_save e k d s =
     (case save_found e k d s of
        (Rejects, s1) \<Rightarrow> (Some (Response 500 (Error ''Failed to update shop'')), s1)
      | (Resolves u, s1) \<Rightarrow> (Some (Response 200 (Doc d)), s1))"

definition put_doc :: "env \<Rightarrow> request \<Rightarrow> string \<Rightarrow> shop \<Rightarrow> shop" where
  "put_doc e r name d0 =
     (let d = put_fields e r name d0 in
      case req_file r of
        None \<Rightarrow> d
      | Some filename \<Rightarrow> d\<lparr>photo := ''/uploads/'' @ filename\<rparr>)"

definition put_finish ::
  "env \<Rightarrow> request \<Rightarrow> nat \<Rightarrow> js \<Rightarrow> shop \<Rightarrow> world \<Rightarrow> response option \<times> world" where
  "put_finish e r k v d0 s =
     (case castString v of
        None \<Rightarrow> (Some (Response 500 (Error ''Failed to update shop'')), call SaveUncast s)
      | Some name \<Rightarrow> put_save e k (put_doc e r name d0) s)"

definition put_shop :: "env \<Rightarrow> request \<Rightarrow> world \<Rightarrow> response option \<times> world" where
  "put_shop e r s =
     (case Shop_findOne e (req_params_id r) s of
        (Rejects, s1) \<Rightarrow> (Some (Response 500 (Error ''Failed to update shop'')), s1)
      | (Resolves None, s1) \<Rightarrow> (Some (Response 404 (Error ''Shop not found'')), s1)
      | (Resolves (Some (k, d0)), s1) \<Rightarrow>
          (case req_body r of
             None \<Rightarrow> (Some (Response 500 (Error ''Failed to update shop'')), s1)
           | Some b \<Rightarrow>
               (case getPlaceName e (b ''latitude'') (b ''longitude'') s1 of
                  (None, s2) \<Rightarrow> (None, s2)
                | (Some v, s2) \<Rightarrow>
                    (case req_file r of
                       None \<Rightarrow> put_finish e r k v d0 s2
                     | Some filename \<Rightarrow>
                         (case remove_photo (photo d0) s2 of
                            (Rejects, s3) \<Rightarrow>
                              (Some (Response 500 (Error ''Failed to update shop'')), s3)
                          | (Resolves u, s3) \<Rightarrow>
                              put_finish e r k v d0 s3)))))"

text \<open>\<^verbatim>\<open>app.delete('/api/shops/:id')\<close>\<close>

definition delete_shop :: "env \<Rightarrow> request \<Rightarrow> world \<Rightarrow> response \<times> world" where
  "delete_shop e r s =
     (case Shop_findOne e (req_params_id r) s of
        (Rejects, s1) \<Rightarrow> (Response 500 (Error ''Failed to delete shop''), s1)
      | (Resolves None, s1) \<Rightarrow> (Response 404 (Error ''Shop not found''), s1)
      | (Resolves (Some (k, d)), s1) \<Rightarrow>
          (case remove_photo (photo d) s1 of
             (Rejects, s2) \<Rightarrow> (Response 500 (Error ''Failed to delete shop''), s2)
           | (Resolves u, s2) \<Rightarrow>
               (case Shop_deleteOne e (req_params_id r) s2 of
                  (Rejects, s3) \<Rightarrow> (Response 500 (Error ''Failed to delete shop''), s3)
                | (Resolves v, s3) \<Rightarrow> (Response 200 (Message ''Shop deleted''), s3))))"

text \<open>
  The five routes, and the server handling a sequence of requests one after the other,
  each with what the outside answers while it is handled. A request that is never answered
  leaves the world as it is when the handler stops at the pending call.
\<close>

datatype verb = LIST | GET | POST | PUT | DELETE

fun handle :: "verb \<Rightarrow> env \<Rightarrow> request \<Rightarrow> world \<Rightarrow> response option \<times> world" where
  "handle LIST e r s = (case get_shops e r s of (a, s1) \<Rightarrow> (Some a, s1))"
| "handle GET e r s = (case get_shop e r s of (a, s1) \<Rightarrow> (Some a, s1))"
| "handle POST e r s = post_shop e r s"
| "handle PUT e r s = put_shop e r s"
| "handle DELETE e r s = (case delete_shop e r s of (a, s1) \<Rightarrow> (Some a, s1))"

fun serve :: "(verb \<times> env \<times> request) list \<Rightarrow> world \<Rightarrow> world" where
  "serve [] s = s"
| "serve ((m, e, r) # rs) s = serve rs (snd (handle m e r s))"

subsection \<open>Notions used to state the properties\<close>

text \<open>The calls that touch the photo files.\<close>

fun fs_event :: "event \<Rightarrow> bool" where
  "fs_event (ExistsSync p) = True"
| "fs_event (UnlinkSync p) = True"
| "fs_event _ = False"

text \<open>The five required text fields of a shop, as the form names them.\<close>

definition required_text :: "string list" where
  "required_text = [''ownerName'', ''contactNumber'', ''shopNumber'', ''address'', ''description'']"

text \<open>A body that carries every field the schema requires, none of them empty.\<close>

definition valid_body :: "(string \<rightharpoonup> string) \<Rightarrow> bool" where
  "valid_body b \<longleftrightarrow>
     required (b ''ownerName'') \<and> required (b ''contactNumber'') \<and>
     required (b ''shopNumber'') \<and> required (b ''address'') \<and>
     required (b ''description'') \<and> required (b ''latitude'') \<and>
     required (b ''longitude'')"

text \<open>
  A failure of the geocoder that the code catches: the call throws, or the reply carries
  no truthy place name (none at all, \<^verbatim>\<open>null\<close>, the empty string, 0, \<^verbatim>\<open>false\<close>).
\<close>

definition geo_failure :: "geo_reply \<Rightarrow> bool" where
  "geo_failure g =
     (case g of Rejected m \<Rightarrow> True | Replied v \<Rightarrow> \<not> truthy v | Pending \<Rightarrow> False)"

text \<open>A value that is a string.\<close>

fun is_string :: "js \<Rightarrow> bool" where
  "is_string (JString x) = True"
| "is_string _ = False"

text \<open>A response with a status from 400 to 499.\<close>

fun client_error :: "response \<Rightarrow> bool" where
  "client_error (Response code body) \<longleftrightarrow> 400 \<le> code \<and> code < 500"

text \<open>The calls to the geocoder.\<close>

fun geo_event :: "event \<Rightarrow> bool" where
  "geo_event (GeoRequest lat lon) = True"
| "geo_event _ = False"

text \<open>
  The order "persist, then remove": no file is unlinked before the first \<^verbatim>\<open>save\<close> of the
  log.
\<close>

fun unlink_after_save :: "event list \<Rightarrow> bool" where
  "unlink_after_save [] = True"
| "unlink_after_save (Save d # evs) = True"
| "unlink_after_save (UnlinkSync p # evs) = False"
| "unlink_after_save (ev # evs) = unlink_after_save evs"

text \<open>A stored document whose photo reference names a file that does not exist.\<close>

definition dangling :: "world \<Rightarrow> bool" where
  "dangling s = list_ex (\<lambda>d. photo d \<noteq> [] \<and> public_path (photo d) \<notin> files s) (shops s)"

subsection \<open>A concrete shop, world and requests\<close>

definition example_shop :: shop where
  "example_shop =
     \<lparr> id_shop = ''7f3c'',
       ownerName = Some ''Ann'',
       contactNumber = Some ''555-0100'',
       shopNumber = Some ''12'',
       address = Some ''1 High St'',
       description = Some ''Bakery'',
       photo = ''/uploads/1700000000000.png'',
       timestamp = ''2023-11-14 22:13:20'',
       location = \<lparr> latitude = Some ''48.8566'', longitude = Some ''2.3522'',
                    placeName = ''Paris, France'' \<rparr> \<rparr>"

definition example_world :: world where
  "example_world =
     \<lparr> shops = [example_shop],
       files = {''public/uploads/1700000000000.png'', ''public/uploads/1700000123456.jpg''},
       calls = [] \<rparr>"

text \<open>The geocoder knows London and fails for every other pair of coordinates.\<close>

definition example_env :: env where
  "example_env =
     \<lparr> nominatim = (\<lambda>lat lon.
         if lat = Some ''51.5074'' \<and> lon = Some ''-0.1278'' then Replied (JString ''London, UK'')
         else Rejected ''timeout''),
       uuidv4 = ''9b2e'',
       now = \<lparr> year = 2024, month = 3, day = 9, hours = 14, minutes = 5, seconds = 0 \<rparr>,
       db_find_ok = True,
       db_save_ok = True,
       db_delete_ok = True \<rparr>"

definition example_body :: "string \<rightharpoonup> string" where
  "example_body =
     [''ownerName'' \<mapsto> ''Bob'', ''contactNumber'' \<mapsto> ''555-0199'', ''shopNumber'' \<mapsto> ''7'',
      ''address'' \<mapsto> ''2 Low Rd'', ''description'' \<mapsto> ''Books'',
      ''latitude'' \<mapsto> ''51.5074'', ''longitude'' \<mapsto> ''-0.1278'']"

text \<open>
  The same body with the coordinates that \<open>example_shop\<close> already has; the geocoder fails
  for them.
\<close>

definition example_body_paris :: "string \<rightharpoonup> string" where
  "example_body_paris = example_body(''latitude'' \<mapsto> ''48.8566'', ''longitude'' \<mapsto> ''2.3522'')"

text \<open>The same body without the owner's name.\<close>

definition example_body_anonymous :: "string \<rightharpoonup> string" where
  "example_body_anonymous = example_body(''ownerName'' := None)"

definition example_create :: request where
  "example_create = \<lparr> req_params_id = [], req_body = Some example_body, req_file = None \<rparr>"

definition example_update :: request where
  "example_update = \<lparr> req_params_id = ''7f3c'', req_body = Some example_body, req_file = None \<rparr>"

definition example_update_photo :: request where
  "example_update_photo =
     \<lparr> req_params_id = ''7f3c'', req_body = Some example_body,
       req_file = Some ''1700000123456.jpg'' \<rparr>"

definition example_unknown :: request where
  "example_unknown = \<lparr> req_params_id = ''abc'', req_body = Some example_body, req_file = None \<rparr>"

definition example_update_paris :: request where
  "example_update_paris =
     \<lparr> req_params_id = ''7f3c'', req_body = Some example_body_paris, req_file = None \<rparr>"

definition example_create_anonymous :: request where
  "example_create_anonymous =
     \<lparr> req_params_id = [], req_body = Some example_body_anonymous, req_file = None \<rparr>"

text \<open>The same create request, with a photo.\<close>

definition example_create_anonymous_photo :: request where
  "example_create_anonymous_photo =
     \<lparr> req_params_id = [], req_body = Some example_body_anonymous,
       req_file = Some ''1700000999999.jpg'' \<rparr>"

text \<open>A create request without a body.\<close>

definition example_create_empty :: request where
  "example_create_empty = \<lparr> req_params_id = [], req_body = None, req_file = None \<rparr>"

text \<open>An environment whose store refuses to save.\<close>

definition example_env_down :: env where
  "example_env_down = example_env\<lparr> db_save_ok := False \<rparr>"

text \<open>
  Geocoders whose reply has the number 42 for a place name, an object for a place name,
  and one that never answers.
\<close>

definition example_env_number :: env where
  "example_env_number = example_env\<lparr> nominatim := (\<lambda>lat lon. Replied (JNumber True CHR ''4'' ''2'')) \<rparr>"

definition example_env_object :: env where
  "example_env_object = example_env\<lparr> nominatim := (\<lambda>lat lon. Replied (JObject None)) \<rparr>"

definition example_env_pending :: env where
  "example_env_pending = example_env\<lparr> nominatim := (\<lambda>lat lon. Pending) \<rparr>"

text \<open>The documents the examples produce.\<close>

definition example_created :: shop where
  "example_created =
     \<lparr> id_shop = ''9b2e'',
       ownerName = Some ''Bob'',
       contactNumber = Some ''555-0199'',
       shopNumber = Some ''7'',
       address = Some ''2 Low Rd'',
       description = Some ''Books'',
       photo = [],
       timestamp = ''2024-03-09 14:05:00'',
       location = \<lparr> latitude = Some ''51.5074'', longitude = Some ''-0.1278'',
                    placeName = ''London, UK'' \<rparr> \<rparr>"

definition example_updated :: shop where
  "example_updated =
     example_created\<lparr> id_shop := ''7f3c'', photo := ''/uploads/1700000000000.png'' \<rparr>"

definition example_updated_paris :: shop where
  "example_updated_paris =
     example_updated\<lparr> location := \<lparr> latitude = Some ''48.8566'', longitude = Some ''2.3522'',
                                     placeName = ''Unknown location'' \<rparr> \<rparr>"

section \<open>Properties\<close>

subsection \<open>Auxiliary facts\<close>

lemma call_shops [simp]: "shops (call ev s) = shops s"
  and call_files [simp]: "files (call ev s) = files s"
  and call_calls [simp]: "calls (call ev s) = calls s @ [ev]"
  by (simp_all add: call_def)

lemma findOne_None_iff: "findOne i ds = None \<longleftrightarrow> i \<notin> set (map id_shop ds)"
  by (induction ds) auto

lemma findOne_SomeD:
  "findOne i ds = Some (k, d) \<Longrightarrow> k < length ds \<and> ds ! k = d \<and> id_shop d = i"
proof (induction ds arbitrary: k)
  case Nil
  then show ?case by simp
next
  case (Cons a ds)
  show ?case
  proof (cases "id_shop a = i")
    case True
    with Cons.prems show ?thesis by simp
  next
    case False
    with Cons.prems obtain j where j: "findOne i ds = Some (j, d)" and k: "k = Suc j"
      by (auto split: prod.splits)
    from Cons.IH [OF j] k show ?thesis by simp
  qed
qed

lemma findOne_append_new:
  "i \<notin> set (map id_shop ds) \<Longrightarrow> id_shop d = i \<Longrightarrow> findOne i (ds @ [d]) = Some (length ds, d)"
  by (induction ds) auto

lemma findOne_update:
  assumes "findOne i ds = Some (k, d0)" and "id_shop d = id_shop d0"
  shows "findOne i (ds[k := d]) = Some (k, d)"
  using assms
proof (induction ds arbitrary: k)
  case Nil
  then show ?case by simp
next
  case (Cons a ds)
  show ?case
  proof (cases "id_shop a = i")
    case True
    with Cons.prems have "k = 0" "d0 = a" by simp_all
    with True Cons.prems show ?thesis by simp
  next
    case False
    with Cons.prems obtain j where j: "findOne i ds = Some (j, d0)" and k: "k = Suc j"
      by (auto split: prod.splits)
    from Cons.IH [OF j Cons.prems(2)] False k show ?thesis by simp
  qed
qed

lemma map_update_same:
  assumes "k < length xs" and "f y = f (xs ! k)"
  shows "map f (xs[k := y]) = map f xs"
proof -
  have "map f (xs[k := y]) = (map f xs)[k := (map f xs) ! k]"
    using assms by (simp add: map_update)
  then show ?thesis by simp
qed

lemma show_nat_nonempty:
  "show_nat n \<noteq> []"
  by (subst show_nat.simps) simp

lemma format_nonempty: "format_YmdHMS t \<noteq> []"
  by (simp add: format_YmdHMS_def show_nat_nonempty)

lemma is_digit_digit [simp]: "is_digit (digit n)"
proof -
  have "n mod 10 < length ''0123456789''" by simp
  then have "''0123456789'' ! (n mod 10) \<in> set ''0123456789''" by (rule nth_mem)
  then show ?thesis by (simp only: is_digit_def digit_def)
qed

lemma show_nat_1: "n < 10 \<Longrightarrow> show_nat n = [digit n]"
  by (subst show_nat.simps) simp

lemma show_nat_2: "10 \<le> n \<Longrightarrow> n < 100 \<Longrightarrow> show_nat n = [digit (n div 10), digit n]"
  by (subst show_nat.simps) (simp add: show_nat_1)

lemma show_nat_3:
  "100 \<le> n \<Longrightarrow> n < 1000 \<Longrightarrow> show_nat n = [digit (n div 10 div 10), digit (n div 10), digit n]"
  by (subst show_nat.simps) (simp add: show_nat_2)

lemma show_nat_4:
  "1000 \<le> n \<Longrightarrow> n < 10000 \<Longrightarrow>
   show_nat n = [digit (n div 10 div 10 div 10), digit (n div 10 div 10), digit (n div 10), digit n]"
  by (subst show_nat.simps) (simp add: show_nat_3)

lemma pad_2: "n < 100 \<Longrightarrow> \<exists>a b. pad n = [a, b] \<and> is_digit a \<and> is_digit b"
proof (cases "n < 10")
  case True
  have "is_digit (CHR ''0'')" by (simp add: is_digit_def)
  with True show ?thesis by (simp add: pad_def show_nat_1)
next
  case False
  assume "n < 100"
  with False show ?thesis by (simp add: pad_def show_nat_2)
qed

lemma format_shape: "calendar t \<Longrightarrow> is_YmdHMS (format_YmdHMS t)"
proof -
  assume c: "calendar t"
  then have y: "show_nat (year t) = [digit (year t div 10 div 10 div 10), digit (year t div 10 div 10), digit (year t div 10), digit (year t)]"
    by (intro show_nat_4) (simp_all add: calendar_def)
  from c obtain m1 m2 where m: "pad (month t) = [m1, m2]" "is_digit m1" "is_digit m2"
    using pad_2 [of "month t"] by (auto simp: calendar_def)
  from c obtain d1 d2 where d: "pad (day t) = [d1, d2]" "is_digit d1" "is_digit d2"
    using pad_2 [of "day t"] by (auto simp: calendar_def)
  from c obtain h1 h2 where h: "pad (hours t) = [h1, h2]" "is_digit h1" "is_digit h2"
    using pad_2 [of "hours t"] by (auto simp: calendar_def)
  from c obtain n1 n2 where n: "pad (minutes t) = [n1, n2]" "is_digit n1" "is_digit n2"
    using pad_2 [of "minutes t"] by (auto simp: calendar_def)
  from c obtain s1 s2 where s: "pad (seconds t) = [s1, s2]" "is_digit s1" "is_digit s2"
    using pad_2 [of "seconds t"] by (auto simp: calendar_def)
  show ?thesis
    by (simp add: format_YmdHMS_def y m d h n s)
qed

lemma getPlaceName_shops [simp]: "shops (snd (getPlaceName e a b s)) = shops s"
  and getPlaceName_files [simp]: "files (snd (getPlaceName e a b s)) = files s"
  by (simp_all add: getPlaceName_def Let_def split: geo_reply.splits)

lemma getPlaceName_calls:
  "calls (snd (getPlaceName e a b s)) =
     calls s @ GeoRequest a b #
       (case nominatim e a b of
          Rejected m \<Rightarrow> [ConsoleError (''Reverse geocoding failed: '' @ m)]
        | Replied v \<Rightarrow> []
        | Pending \<Rightarrow> [])"
  by (simp add: getPlaceName_def Let_def split: geo_reply.splits)

lemma getPlaceName_fs_calls [simp]:
  "filter fs_event (calls (snd (getPlaceName e a b s))) = filter fs_event (calls s)"
  by (simp add: getPlaceName_calls split: geo_reply.splits)

lemma getPlaceName_no_save [simp]:
  "Save d \<notin> set (calls (snd (getPlaceName e a b s))) \<longleftrightarrow> Save d \<notin> set (calls s)"
  by (simp add: getPlaceName_calls split: geo_reply.splits)

lemma getPlaceName_fst:
  "fst (getPlaceName e a b s) =
     (case nominatim e a b of
        Rejected m \<Rightarrow> Some (JString ''Unknown location'')
      | Replied v \<Rightarrow> Some (if truthy v then v else JString ''Unknown location'')
      | Pending \<Rightarrow> None)"
  by (simp add: getPlaceName_def Let_def split: geo_reply.splits)

lemma getPlaceName_fst_indep:
  "fst (getPlaceName e a b s) = fst (getPlaceName e a b w)"
  by (simp add: getPlaceName_fst)

lemma getPlaceName_pending:
  "fst (getPlaceName e a b s) = None \<longleftrightarrow> nominatim e a b = Pending"
  by (simp add: getPlaceName_fst split: geo_reply.splits)

lemma getPlaceName_truthy: "fst (getPlaceName e a b s) = Some v \<Longrightarrow> truthy v"
  by (auto simp add: getPlaceName_fst split: geo_reply.splits if_splits)

lemma getPlaceName_failure:
  "geo_failure (nominatim e a b) \<Longrightarrow>
     fst (getPlaceName e a b s) = Some (JString ''Unknown location'')"
  by (auto simp add: getPlaceName_fst geo_failure_def split: geo_reply.splits)

lemma castString_nonempty: "truthy v \<Longrightarrow> castString v = Some n \<Longrightarrow> n \<noteq> []"
proof (cases v)
  case (JObject i)
  assume "castString v = Some n"
  with JObject show ?thesis by (cases i) (auto split: if_splits)
qed (auto split: if_splits)

lemma castString_string: "is_string v \<Longrightarrow> castString v \<noteq> None"
  by (cases v) simp_all

lemma remove_photo_resolves: "fst (remove_photo ref s) = Resolves ()"
  by (simp add: remove_photo_def existsSync_def unlinkSync_def Let_def split: bool.splits)

lemma remove_photo_files:
  "files (snd (remove_photo ref s)) = (if ref = [] then files s else files s - {public_path ref})"
  by (auto simp add: remove_photo_def existsSync_def unlinkSync_def Let_def split: bool.splits)

lemma remove_photo_shops [simp]: "shops (snd (remove_photo ref s)) = shops s"
  by (simp add: remove_photo_def existsSync_def unlinkSync_def Let_def split: bool.splits)

lemma remove_photo_eq:
  "remove_photo ref s =
     (Resolves (),
      if ref = [] then s
      else if public_path ref \<in> files s
      then (call (UnlinkSync (public_path ref)) (call (ExistsSync (public_path ref)) s))
             \<lparr>files := files s - {public_path ref}\<rparr>
      else call (ExistsSync (public_path ref)) s)"
  by (simp add: remove_photo_def existsSync_def unlinkSync_def Let_def)

lemma remove_photo_calls:
  "calls (snd (remove_photo ref s)) =
     calls s @
       (if ref = [] then []
        else if public_path ref \<in> files s
        then [ExistsSync (public_path ref), UnlinkSync (public_path ref)]
        else [ExistsSync (public_path ref)])"
  by (simp add: remove_photo_eq)

lemma upload_single_shops [simp]: "shops (upload_single r s) = shops s"
  by (simp add: upload_single_def split: option.splits)

lemma upload_single_files: "files s \<subseteq> files (upload_single r s)"
  by (auto simp add: upload_single_def split: option.splits)

lemma save_new_resolves:
  "save_new e d s = (Resolves u, s') \<longleftrightarrow>
     validate d \<and> db_save_ok e \<and> id_shop d \<notin> set (map id_shop (shops s)) \<and>
     s' = (call (Save d) s)\<lparr>shops := shops s @ [d]\<rparr>"
  by (auto simp add: save_new_def Let_def)

lemma body_field_Some [simp]: "req_body r = Some b \<Longrightarrow> body_field r f = b f"
  by (simp add: body_field_def)

lemma body_field_None [simp]: "req_body r = None \<Longrightarrow> body_field r f = None"
  by (simp add: body_field_def)

lemma post_save_eq:
  "post_save e d s =
     (if validate d \<and> db_save_ok e \<and> id_shop d \<notin> set (map id_shop (shops s))
      then (Some (Response 201 (Doc d)), (call (Save d) s)\<lparr>shops := shops s @ [d]\<rparr>)
      else (Some (Response 500 (Error ''Failed to create shop'')), call (Save d) s))"
  by (simp add: post_save_def save_new_def Let_def)

lemma put_save_eq:
  "put_save e k d s =
     (if validate d \<and> db_save_ok e
      then (Some (Response 200 (Doc d)), (call (Save d) s)\<lparr>shops := (shops s)[k := d]\<rparr>)
      else (Some (Response 500 (Error ''Failed to update shop'')), call (Save d) s))"
  by (simp add: put_save_def save_found_def Let_def)

lemma put_fields_photo [simp]: "photo (put_fields e r name d0) = photo d0"
  and put_fields_id [simp]: "id_shop (put_fields e r name d0) = id_shop d0"
  by (simp_all add: put_fields_def)

lemma put_doc_id [simp]: "id_shop (put_doc e r name d0) = id_shop d0"
  by (simp add: put_doc_def Let_def split: option.splits)

lemma put_doc_photo:
  "photo (put_doc e r name d0) =
     (case req_file r of None \<Rightarrow> photo d0 | Some filename \<Rightarrow> ''/uploads/'' @ filename)"
  by (simp add: put_doc_def Let_def split: option.splits)

lemma put_doc_fields:
  "ownerName (put_doc e r n d0) = body_field r ''ownerName''"
  "contactNumber (put_doc e r n d0) = body_field r ''contactNumber''"
  "shopNumber (put_doc e r n d0) = body_field r ''shopNumber''"
  "address (put_doc e r n d0) = body_field r ''address''"
  "description (put_doc e r n d0) = body_field r ''description''"
  "latitude (location (put_doc e r n d0)) = body_field r ''latitude''"
  "longitude (location (put_doc e r n d0)) = body_field r ''longitude''"
  "placeName (location (put_doc e r n d0)) = n"
  "timestamp (put_doc e r n d0) = format_YmdHMS (now e)"
  by (simp_all add: put_doc_def put_fields_def Let_def split: option.splits)

lemma put_finish_world:
  "files (snd (put_finish e r k v d0 s)) = files s"
  "calls (snd (put_finish e r k v d0 s)) =
     calls s @ [case castString v of None \<Rightarrow> SaveUncast | Some n \<Rightarrow> Save (put_doc e r n d0)]"
  "shops (snd (put_finish e r k v d0 s)) =
     (case castString v of
        None \<Rightarrow> shops s
      | Some n \<Rightarrow>
          if validate (put_doc e r n d0) \<and> db_save_ok e then (shops s)[k := put_doc e r n d0]
          else shops s)"
  by (simp_all add: put_finish_def put_save_eq split: option.splits)

lemma put_finish_ok:
  "put_finish e r k v d0 s = (Some (Response 200 (Doc d)), s') \<longleftrightarrow>
     (\<exists>n. castString v = Some n \<and> d = put_doc e r n d0 \<and> validate d \<and> db_save_ok e
        \<and> s' = (call (Save d) s)\<lparr>shops := (shops s)[k := d]\<rparr>)"
  by (auto simp add: put_finish_def put_save_eq split: option.splits)

text \<open>The create handler, with the pairs taken apart.\<close>

lemma post_shop_eq:
  "post_shop e r s =
     (case req_body r of
        None \<Rightarrow> (Some (Response 500 (Error ''Failed to create shop'')), s)
      | Some b \<Rightarrow>
          (let p = getPlaceName e (b ''latitude'') (b ''longitude'') s in
           case fst p of
             None \<Rightarrow> (None, snd p)
           | Some v \<Rightarrow>
               (case castString v of
                  None \<Rightarrow>
                    (Some (Response 500 (Error ''Failed to create shop'')),
                     call SaveUncast (snd p))
                | Some n \<Rightarrow> post_save e (post_doc e r n) (snd p))))"
  by (simp add: post_shop_def Let_def split: option.splits prod.splits)

text \<open>The update handler on a document that is found, with the pairs taken apart.\<close>

lemma put_shop_eq:
  assumes "db_find_ok e" and "findOne (req_params_id r) (shops s) = Some (k, d0)"
  shows "put_shop e r s =
     (case req_body r of
        None \<Rightarrow>
          (Some (Response 500 (Error ''Failed to update shop'')),
           call (FindOne (req_params_id r)) s)
      | Some b \<Rightarrow>
          (let p = getPlaceName e (b ''latitude'') (b ''longitude'')
                     (call (FindOne (req_params_id r)) s) in
           case fst p of
             None \<Rightarrow> (None, snd p)
           | Some v \<Rightarrow>
               put_finish e r k v d0
                 (case req_file r of
                    None \<Rightarrow> snd p
                  | Some filename \<Rightarrow> snd (remove_photo (photo d0) (snd p)))))"
proof (cases "req_body r")
  case None
  with assms show ?thesis by (simp add: put_shop_def Shop_findOne_def)
next
  case (Some b)
  let ?s1 = "call (FindOne (req_params_id r)) s"
  obtain a s2 where g: "getPlaceName e (b ''latitude'') (b ''longitude'') ?s1 = (a, s2)"
    by (cases "getPlaceName e (b ''latitude'') (b ''longitude'') ?s1")
  obtain s3 where rm: "remove_photo (photo d0) s2 = (Resolves (), s3)"
    using remove_photo_resolves [of "photo d0" s2] by (cases "remove_photo (photo d0) s2") simp
  from assms Some g rm show ?thesis
    by (simp add: put_shop_def Shop_findOne_def Let_def split: option.splits)
qed

text \<open>What a successful create returns and stores.\<close>

lemma post_shop_created:
  assumes "post_shop e r s = (Some (Response 201 (Doc d)), s')"
  shows "\<exists>v n. req_body r \<noteq> None
    \<and> fst (getPlaceName e (body_field r ''latitude'') (body_field r ''longitude'') s) = Some v
    \<and> castString v = Some n \<and> d = post_doc e r n
    \<and> validate d \<and> db_save_ok e \<and> id_shop d \<notin> set (map id_shop (shops s))
    \<and> shops s' = shops s @ [d] \<and> files s' = files s"
proof (cases "req_body r")
  case None
  with assms show ?thesis by (simp add: post_shop_eq)
next
  case (Some b)
  let ?p = "getPlaceName e (b ''latitude'') (b ''longitude'') s"
  from assms Some obtain v where v: "fst ?p = Some v"
    by (cases "fst ?p") (simp_all add: post_shop_eq Let_def)
  from assms Some v obtain n where n: "castString v = Some n"
    by (cases "castString v") (simp_all add: post_shop_eq Let_def)
  from assms Some v n
  have "post_save e (post_doc e r n) (snd ?p) = (Some (Response 201 (Doc d)), s')"
    by (simp add: post_shop_eq Let_def)
  then have d: "d = post_doc e r n" and ok: "validate (post_doc e r n)" "db_save_ok e"
    "id_shop (post_doc e r n) \<notin> set (map id_shop (shops s))"
    and s': "s' = (call (Save (post_doc e r n)) (snd ?p))\<lparr>shops := shops s @ [post_doc e r n]\<rparr>"
    by (auto simp add: post_save_eq split: if_splits)
  from s' have "shops s' = shops s @ [post_doc e r n]" "files s' = files s" by simp_all
  with Some v n d ok show ?thesis by simp
qed

text \<open>What a successful update returns and stores.\<close>

lemma put_shop_updated:
  assumes "put_shop e r s = (Some (Response 200 (Doc d)), s')"
  shows "\<exists>k d0 v n. db_find_ok e \<and> findOne (req_params_id r) (shops s) = Some (k, d0)
    \<and> req_body r \<noteq> None
    \<and> fst (getPlaceName e (body_field r ''latitude'') (body_field r ''longitude'') s) = Some v
    \<and> castString v = Some n \<and> d = put_doc e r n d0
    \<and> validate d \<and> db_save_ok e \<and> shops s' = (shops s)[k := d]
    \<and> files s' = (case req_file r of None \<Rightarrow> files s
                   | Some filename \<Rightarrow>
                       if photo d0 = [] then files s else files s - {public_path (photo d0)})"
proof -
  let ?s1 = "call (FindOne (req_params_id r)) s"
  from assms obtain k d0 where ok: "db_find_ok e"
    and f: "findOne (req_params_id r) (shops s) = Some (k, d0)"
    by (auto simp add: put_shop_def Shop_findOne_def split: if_splits option.splits)
  note eq = put_shop_eq [OF ok f]
  from assms obtain b where b: "req_body r = Some b"
    by (cases "req_body r") (simp_all add: eq)
  let ?p = "getPlaceName e (b ''latitude'') (b ''longitude'') ?s1"
  from assms b obtain v where v: "fst ?p = Some v"
    by (cases "fst ?p") (simp_all add: eq Let_def)
  let ?s3 = "case req_file r of None \<Rightarrow> snd ?p
    | Some filename \<Rightarrow> snd (remove_photo (photo d0) (snd ?p))"
  from assms b v have "put_finish e r k v d0 ?s3 = (Some (Response 200 (Doc d)), s')"
    by (simp add: eq Let_def)
  then obtain n where n: "castString v = Some n" and d: "d = put_doc e r n d0"
    and val: "validate d" "db_save_ok e"
    and s': "s' = (call (Save d) ?s3)\<lparr>shops := (shops ?s3)[k := d]\<rparr>"
    by (auto simp add: put_finish_ok)
  have s3: "shops ?s3 = shops s"
    "files ?s3 = (case req_file r of None \<Rightarrow> files s
       | Some filename \<Rightarrow>
           if photo d0 = [] then files s else files s - {public_path (photo d0)})"
    by (simp_all add: remove_photo_files split: option.splits)
  have v': "fst (getPlaceName e (body_field r ''latitude'') (body_field r ''longitude'') s) = Some v"
    using v b getPlaceName_fst_indep [of e "b ''latitude''" "b ''longitude''" ?s1 s] by simp
  from s' s3 have "shops s' = (shops s)[k := d]"
    "files s' = (case req_file r of None \<Rightarrow> files s
       | Some filename \<Rightarrow>
           if photo d0 = [] then files s else files s - {public_path (photo d0)})"
    by simp_all
  with ok f b v' n d val show ?thesis by auto
qed

lemma put_shop_stored:
  assumes "put_shop e r s = (Some (Response 200 (Doc d)), s')"
  shows "d \<in> set (shops s')"
proof -
  from put_shop_updated [OF assms] obtain k d0
    where f: "findOne (req_params_id r) (shops s) = Some (k, d0)"
      and s': "shops s' = (shops s)[k := d]"
    by auto
  from findOne_SomeD [OF f] have "k < length (shops s)" by simp
  then show ?thesis by (simp add: s' set_update_memI)
qed

lemma put_shop_timestamp:
  assumes "put_shop e r s = (Some (Response 200 (Doc d)), s')"
  shows "timestamp d = format_YmdHMS (now e)"
  using put_shop_updated [OF assms] by (auto simp add: put_doc_fields)

lemma put_shop_placeName:
  assumes "put_shop e r s = (Some (Response 200 (Doc d)), s')"
  shows "\<exists>v. fst (getPlaceName e (body_field r ''latitude'') (body_field r ''longitude'') s)
      = Some v \<and> castString v = Some (placeName (location d))"
  using put_shop_updated [OF assms] by (auto simp add: put_doc_fields)

lemma put_shop_ids: "map id_shop (shops (snd (put_shop e r s))) = map id_shop (shops s)"
proof (cases "db_find_ok e")
  case False
  then show ?thesis by (simp add: put_shop_def Shop_findOne_def)
next
  case True
  show ?thesis
  proof (cases "findOne (req_params_id r) (shops s)")
    case None
    with True show ?thesis by (simp add: put_shop_def Shop_findOne_def)
  next
    case (Some a)
    then obtain k d0 where f: "findOne (req_params_id r) (shops s) = Some (k, d0)"
      by (cases a) simp
    from findOne_SomeD [OF f] have k: "k < length (shops s)" "shops s ! k = d0" by simp_all
    have same: "map id_shop ((shops s)[k := put_doc e r n d0]) = map id_shop (shops s)" for n
      using k by (intro map_update_same) simp_all
    show ?thesis
      by (simp add: put_shop_eq [OF True f] Let_def put_finish_world same
          split: option.splits)
  qed
qed

lemma validate_post_doc_iff:
  "validate (post_doc e r n) \<longleftrightarrow>
     (\<exists>b. req_body r = Some b \<and> valid_body b) \<and> uuidv4 e \<noteq> []"
  by (cases "req_body r")
    (auto simp add: valid_body_def validate_def post_doc_def format_nonempty required_def)

lemma validate_put_doc_iff:
  "validate (put_doc e r n d0) \<longleftrightarrow>
     (\<exists>b. req_body r = Some b \<and> valid_body b) \<and> id_shop d0 \<noteq> []"
  by (cases "req_body r")
    (auto simp add: valid_body_def validate_def put_doc_def put_fields_def Let_def
      format_nonempty required_def split: option.splits)

lemma post_doc_invalid:
  assumes "f \<in> set required_text" and "\<not> required (body_field r f)"
  shows "\<not> validate (post_doc e r n)"
  using assms by (auto simp add: required_text_def validate_def post_doc_def)

lemma deleteOne_ids_subset: "set (map id_shop (deleteOne i ds)) \<subseteq> set (map id_shop ds)"
  by (induction ds) auto

lemma deleteOne_distinct:
  "distinct (map id_shop ds) \<Longrightarrow> distinct (map id_shop (deleteOne i ds))"
proof (induction ds)
  case Nil
  then show ?case by simp
next
  case (Cons d ds)
  then show ?case using deleteOne_ids_subset [of i ds] by auto
qed

lemma get_shop_shops [simp]: "shops (snd (get_shop e r s)) = shops s"
  by (simp add: get_shop_def Shop_findOne_def split: option.splits)

lemma get_shops_shops [simp]: "shops (snd (get_shops e r s)) = shops s"
  by (simp add: get_shops_def Shop_find_def)

lemma post_shop_distinct:
  "distinct (map id_shop (shops s)) \<Longrightarrow> distinct (map id_shop (shops (snd (post_shop e r s))))"
  by (simp add: post_shop_eq post_save_eq Let_def split: option.splits)

lemma delete_shop_distinct:
  "distinct (map id_shop (shops s)) \<Longrightarrow> distinct (map id_shop (shops (snd (delete_shop e r s))))"
  by (simp add: delete_shop_def Shop_findOne_def Shop_deleteOne_def Let_def remove_photo_eq
      deleteOne_distinct split: option.splits)

lemma handle_distinct:
  "distinct (map id_shop (shops s)) \<Longrightarrow> distinct (map id_shop (shops (snd (handle m e r s))))"
  by (cases m)
    (simp_all add: post_shop_distinct delete_shop_distinct put_shop_ids split: prod.splits,
      (metis get_shops_shops get_shop_shops delete_shop_distinct snd_conv)+)

lemma serve_distinct:
  "distinct (map id_shop (shops s)) \<Longrightarrow> distinct (map id_shop (shops (serve rs s)))"
proof (induction rs arbitrary: s)
  case Nil
  then show ?case by simp
next
  case (Cons a rs)
  obtain m e r where a: "a = (m, e, r)" by (cases a)
  from Cons.prems have "distinct (map id_shop (shops (snd (handle m e r s))))"
    by (rule handle_distinct)
  then show ?case unfolding a by (simp add: Cons.IH)
qed

text \<open>When a create and an update succeed.\<close>

lemma post_shop_succeeds:
  assumes "req_body r = Some b" and "valid_body b" and "uuidv4 e \<noteq> []"
    and "uuidv4 e \<notin> set (map id_shop (shops s))" and "db_save_ok e"
    and "fst (getPlaceName e (b ''latitude'') (b ''longitude'') s) = Some v"
    and "castString v = Some n"
  shows "\<exists>s'. post_shop e r s = (Some (Response 201 (Doc (post_doc e r n))), s')
    \<and> shops s' = shops s @ [post_doc e r n]"
proof -
  have v: "validate (post_doc e r n)"
    using assms(1-3) by (simp add: validate_post_doc_iff)
  have i: "id_shop (post_doc e r n) = uuidv4 e" by (simp add: post_doc_def)
  show ?thesis
    using assms(1,4-7) v by (simp add: post_shop_eq post_save_eq Let_def i)
qed

lemma put_shop_succeeds:
  assumes "db_find_ok e" and "findOne (req_params_id r) (shops s) = Some (k, d0)"
    and "req_params_id r \<noteq> []"
    and "req_body r = Some b" and "valid_body b" and "db_save_ok e"
    and "fst (getPlaceName e (b ''latitude'') (b ''longitude'') s) = Some v"
    and "castString v = Some n"
  shows "\<exists>s'. put_shop e r s = (Some (Response 200 (Doc (put_doc e r n d0))), s')
    \<and> shops s' = (shops s)[k := put_doc e r n d0]"
proof -
  from findOne_SomeD [OF assms(2)] assms(3) have "id_shop d0 \<noteq> []" by auto
  with assms(4,5) have v: "validate (put_doc e r n d0)"
    by (simp add: validate_put_doc_iff)
  have g: "fst (getPlaceName e (b ''latitude'') (b ''longitude'')
      (call (FindOne (req_params_id r)) s)) = Some v"
    using assms(7) by (simp add: getPlaceName_fst)
  show ?thesis
    using assms(4,6,8) v g
    by (simp add: put_shop_eq [OF assms(1,2)] Let_def put_finish_def put_save_eq
        remove_photo_shops split: option.splits)
qed

subsection \<open>The examples, evaluated\<close>

lemma example_body_apply [simp]:
  "example_body ''ownerName'' = Some ''Bob''"
  "example_body ''contactNumber'' = Some ''555-0199''"
  "example_body ''shopNumber'' = Some ''7''"
  "example_body ''address'' = Some ''2 Low Rd''"
  "example_body ''description'' = Some ''Books''"
  "example_body ''latitude'' = Some ''51.5074''"
  "example_body ''longitude'' = Some ''-0.1278''"
  by (simp_all add: example_body_def)

lemma example_format: "format_YmdHMS (now example_env) = ''2024-03-09 14:05:00''"
  by (simp add: example_env_def format_YmdHMS_def pad_def show_nat.simps digit_def)

lemma example_env_fields [simp]:
  "uuidv4 example_env = ''9b2e''" "db_find_ok example_env" "db_save_ok example_env"
  "db_delete_ok example_env"
  by (simp_all add: example_env_def)

lemma example_nominatim:
  "nominatim example_env (Some ''51.5074'') (Some ''-0.1278'') = Replied (JString ''London, UK'')"
  "nominatim example_env (Some ''48.8566'') (Some ''2.3522'') = Rejected ''timeout''"
  by (simp_all add: example_env_def)

lemma example_request_fields [simp]:
  "req_params_id example_create = []" "req_body example_create = Some example_body"
  "req_file example_create = None"
  "req_params_id example_update = ''7f3c''" "req_body example_update = Some example_body"
  "req_file example_update = None"
  "req_params_id example_update_photo = ''7f3c''"
  "req_body example_update_photo = Some example_body"
  "req_file example_update_photo = Some ''1700000123456.jpg''"
  by (simp_all add: example_create_def example_update_def example_update_photo_def)

lemma example_London:
  "getPlaceName example_env (Some ''51.5074'') (Some ''-0.1278'') s =
     (Some (JString ''London, UK''), call (GeoRequest (Some ''51.5074'') (Some ''-0.1278'')) s)"
  by (simp add: getPlaceName_def example_env_def)

lemma example_validate:
  "validate example_created" "validate example_updated" "validate example_shop"
  "validate (example_updated\<lparr>photo := ''/uploads/1700000123456.jpg''\<rparr>)"
  by (simp_all add: validate_def required_def example_created_def example_updated_def
      example_shop_def)

lemma example_find: "findOne ''7f3c'' (shops example_world) = Some (0, example_shop)"
  by (simp add: example_world_def example_shop_def)

lemma example_create_run:
  "post_shop example_env example_create example_world =
     (Some (Response 201 (Doc example_created)),
      \<lparr> shops = [example_shop, example_created], files = files example_world,
        calls = [GeoRequest (Some ''51.5074'') (Some ''-0.1278''), Save example_created] \<rparr>)"
proof -
  have d: "post_doc example_env example_create ''London, UK'' = example_created"
    by (simp add: post_doc_def example_created_def example_format)
  have i: "id_shop example_created \<notin> set (map id_shop (shops example_world))"
    by (simp add: example_created_def example_world_def example_shop_def)
  show ?thesis
    using i by (simp add: post_shop_eq example_London d post_save_eq example_validate)
      (simp add: call_def example_world_def)
qed

lemma example_update_doc:
  "put_doc example_env example_update ''London, UK'' example_shop = example_updated"
  "put_doc example_env example_update_photo ''London, UK'' example_shop =
     example_updated\<lparr>photo := ''/uploads/1700000123456.jpg''\<rparr>"
  by (simp_all add: put_doc_def put_fields_def example_updated_def example_created_def
      example_shop_def example_format)

lemma example_update_run:
  "put_shop example_env example_update example_world =
     (Some (Response 200 (Doc example_updated)),
      \<lparr> shops = [example_updated], files = files example_world,
        calls = [FindOne ''7f3c'', GeoRequest (Some ''51.5074'') (Some ''-0.1278''),
                 Save example_updated] \<rparr>)"
proof -
  have "put_shop example_env example_update example_world =
      put_save example_env 0 example_updated
        (call (GeoRequest (Some ''51.5074'') (Some ''-0.1278''))
           (call (FindOne ''7f3c'') example_world))"
    using put_shop_eq [of example_env example_update example_world 0 example_shop] example_find
    by (simp add: example_London put_finish_def example_update_doc)
  then show ?thesis
    by (simp add: put_save_eq example_validate) (simp add: call_def example_world_def)
qed

lemma example_update_photo_run:
  "put_shop example_env example_update_photo example_world =
     (Some (Response 200 (Doc (example_updated\<lparr>photo := ''/uploads/1700000123456.jpg''\<rparr>))),
      \<lparr> shops = [example_updated\<lparr>photo := ''/uploads/1700000123456.jpg''\<rparr>],
        files = {''public/uploads/1700000123456.jpg''},
        calls = [FindOne ''7f3c'', GeoRequest (Some ''51.5074'') (Some ''-0.1278''),
                 ExistsSync ''public/uploads/1700000000000.png'',
                 UnlinkSync ''public/uploads/1700000000000.png'',
                 Save (example_updated\<lparr>photo := ''/uploads/1700000123456.jpg''\<rparr>)] \<rparr>)"
proof -
  have p: "photo example_shop = ''/uploads/1700000000000.png''"
    by (simp add: example_shop_def)
  have "put_shop example_env example_update_photo example_world =
      put_save example_env 0 (example_updated\<lparr>photo := ''/uploads/1700000123456.jpg''\<rparr>)
        (snd (remove_photo ''/uploads/1700000000000.png''
           (call (GeoRequest (Some ''51.5074'') (Some ''-0.1278''))
              (call (FindOne ''7f3c'') example_world))))"
    using put_shop_eq [of example_env example_update_photo example_world 0 example_shop] example_find
    by (simp add: p example_London put_finish_def example_update_doc)
  then show ?thesis
    by (simp add: put_save_eq example_validate remove_photo_eq public_path_def)
      (simp add: call_def example_world_def)
qed

lemma example_update_paris_run:
  "put_shop example_env example_update_paris example_world =
     (Some (Response 200 (Doc example_updated_paris)),
      \<lparr> shops = [example_updated_paris], files = files example_world,
        calls = [FindOne ''7f3c'', GeoRequest (Some ''48.8566'') (Some ''2.3522''),
                 ConsoleError ''Reverse geocoding failed: timeout'',
                 Save example_updated_paris] \<rparr>)"
proof -
  have r: "req_params_id example_update_paris = ''7f3c''"
    "req_file example_update_paris = None"
    "req_body example_update_paris = Some example_body_paris"
    "example_body_paris ''latitude'' = Some ''48.8566''"
    "example_body_paris ''longitude'' = Some ''2.3522''"
    by (simp_all add: example_update_paris_def example_body_paris_def)
  have g: "getPlaceName example_env (Some ''48.8566'') (Some ''2.3522'') s =
      (Some (JString ''Unknown location''),
       call (ConsoleError ''Reverse geocoding failed: timeout'')
         (call (GeoRequest (Some ''48.8566'') (Some ''2.3522'')) s))" for s
    by (simp add: getPlaceName_def example_nominatim)
  have d: "put_doc example_env example_update_paris ''Unknown location'' example_shop =
      example_updated_paris"
    by (simp add: put_doc_def put_fields_def r example_body_paris_def
        example_updated_paris_def example_updated_def example_created_def example_shop_def
        example_format)
  have v: "validate example_updated_paris"
    by (simp add: validate_def required_def example_updated_paris_def example_updated_def
        example_created_def)
  have "put_shop example_env example_update_paris example_world =
      put_save example_env 0 example_updated_paris
        (call (ConsoleError ''Reverse geocoding failed: timeout'')
          (call (GeoRequest (Some ''48.8566'') (Some ''2.3522''))
             (call (FindOne ''7f3c'') example_world)))"
    using put_shop_eq [of example_env example_update_paris example_world 0 example_shop]
      example_find
    by (simp add: r g put_finish_def d)
  then show ?thesis
    by (simp add: put_save_eq v) (simp add: call_def example_world_def)
qed

subsection \<open>C1: update with a new photo\<close>

text \<open>
  C1, as the code has it. An update of a found shop that carries a new photo, once the
  body is read and the geocoder has answered, first looks for the old file and removes
  it when it exists, and only then calls \<^verbatim>\<open>save\<close> with the new reference: the log is the
  lookup, the geocoding, the removal, the save, in this order. When there is no body, or
  while the geocoder is pending, nothing is removed and nothing saved. When the update
  succeeds, the returned and stored document has the new reference, and the file of the
  old reference does not exist.
\<close>

theorem put_with_file_order:
  assumes "req_file r = Some filename" and "db_find_ok e"
    and "findOne (req_params_id r) (shops s) = Some (k, d0)"
  shows "(req_body r \<noteq> None
        \<and> fst (getPlaceName e (body_field r ''latitude'') (body_field r ''longitude'') s) = Some v
        \<longrightarrow>
        calls (snd (put_shop e r s)) =
          calls (snd (getPlaceName e (body_field r ''latitude'') (body_field r ''longitude'')
                   (call (FindOne (req_params_id r)) s)))
          @ (if photo d0 = [] then []
             else if public_path (photo d0) \<in> files s
             then [ExistsSync (public_path (photo d0)), UnlinkSync (public_path (photo d0))]
             else [ExistsSync (public_path (photo d0))])
          @ [case castString v of
               None \<Rightarrow> SaveUncast
             | Some n \<Rightarrow> Save ((put_fields e r n d0)\<lparr>photo := ''/uploads/'' @ filename\<rparr>)]
        \<and> files (snd (put_shop e r s)) =
            (if photo d0 = [] then files s else files s - {public_path (photo d0)}))
    \<and> (req_body r = None
        \<or> nominatim e (body_field r ''latitude'') (body_field r ''longitude'') = Pending
        \<longrightarrow>
        calls (snd (put_shop e r s)) =
          calls s @ FindOne (req_params_id r) #
            (if req_body r = None then []
             else [GeoRequest (body_field r ''latitude'') (body_field r ''longitude'')])
        \<and> files (snd (put_shop e r s)) = files s
        \<and> shops (snd (put_shop e r s)) = shops s)
    \<and> (put_shop e r s = (Some (Response 200 (Doc d)), s') \<longrightarrow>
        photo d = ''/uploads/'' @ filename \<and> shops s' = (shops s)[k := d]
        \<and> findOne (req_params_id r) (shops s') = Some (k, d)
        \<and> (photo d0 \<noteq> [] \<longrightarrow> public_path (photo d0) \<notin> files s'))"
proof -
  let ?lat = "body_field r ''latitude''" and ?lon = "body_field r ''longitude''"
  let ?s1 = "call (FindOne (req_params_id r)) s"
  note eq = put_shop_eq [OF assms(2,3)]
  have doc: "put_doc e r n d0 = (put_fields e r n d0)\<lparr>photo := ''/uploads/'' @ filename\<rparr>" for n
    by (simp add: put_doc_def assms(1))
  have settled: "calls (snd (put_shop e r s)) =
          calls (snd (getPlaceName e ?lat ?lon ?s1))
          @ (if photo d0 = [] then []
             else if public_path (photo d0) \<in> files s
             then [ExistsSync (public_path (photo d0)), UnlinkSync (public_path (photo d0))]
             else [ExistsSync (public_path (photo d0))])
          @ [case castString v of
               None \<Rightarrow> SaveUncast
             | Some n \<Rightarrow> Save ((put_fields e r n d0)\<lparr>photo := ''/uploads/'' @ filename\<rparr>)]
        \<and> files (snd (put_shop e r s)) =
            (if photo d0 = [] then files s else files s - {public_path (photo d0)})"
    if b: "req_body r \<noteq> None" and v: "fst (getPlaceName e ?lat ?lon s) = Some v"
  proof -
    from b obtain m where m: "req_body r = Some m" by auto
    have v1: "fst (getPlaceName e (m ''latitude'') (m ''longitude'') ?s1) = Some v"
      using v m getPlaceName_fst_indep [of e "m ''latitude''" "m ''longitude''" ?s1 s] by simp
    show ?thesis
      by (simp add: eq m v1 Let_def assms(1) put_finish_world remove_photo_calls
          remove_photo_files doc split: option.splits)
  qed
  have stopped: "calls (snd (put_shop e r s)) =
          calls s @ FindOne (req_params_id r) #
            (if req_body r = None then [] else [GeoRequest ?lat ?lon])
        \<and> files (snd (put_shop e r s)) = files s
        \<and> shops (snd (put_shop e r s)) = shops s"
    if "req_body r = None \<or> nominatim e ?lat ?lon = Pending"
  proof (cases "req_body r")
    case None
    then show ?thesis by (simp add: eq)
  next
    case (Some m)
    with that have p: "nominatim e (m ''latitude'') (m ''longitude'') = Pending" by simp
    then have "fst (getPlaceName e (m ''latitude'') (m ''longitude'') ?s1) = None"
      by (simp add: getPlaceName_pending)
    with Some p show ?thesis by (simp add: eq Let_def getPlaceName_calls)
  qed
  have ok: "photo d = ''/uploads/'' @ filename \<and> shops s' = (shops s)[k := d]
        \<and> findOne (req_params_id r) (shops s') = Some (k, d)
        \<and> (photo d0 \<noteq> [] \<longrightarrow> public_path (photo d0) \<notin> files s')"
    if run: "put_shop e r s = (Some (Response 200 (Doc d)), s')"
  proof -
    from put_shop_updated [OF run] assms obtain n
      where d: "d = put_doc e r n d0" and s': "shops s' = (shops s)[k := d]"
        and fs: "files s' = (if photo d0 = [] then files s
          else files s - {public_path (photo d0)})"
      by auto
    have p: "photo d = ''/uploads/'' @ filename" unfolding d by (simp add: doc)
    have i: "id_shop d = id_shop d0" unfolding d by simp
    from fs have gone: "photo d0 \<noteq> [] \<longrightarrow> public_path (photo d0) \<notin> files s'" by simp
    have "findOne (req_params_id r) ((shops s)[k := d]) = Some (k, d)"
      using assms(3) i by (rule findOne_update)
    with p s' gone show ?thesis by simp
  qed
  from settled stopped ok show ?thesis by blast
qed

theorem put_with_file_order_witness:
  "req_file example_update_photo = Some ''1700000123456.jpg''
   \<and> db_find_ok example_env
   \<and> findOne (req_params_id example_update_photo) (shops example_world) = Some (0, example_shop)
   \<and> req_body example_update_photo \<noteq> None
   \<and> fst (getPlaceName example_env (body_field example_update_photo ''latitude'')
        (body_field example_update_photo ''longitude'') example_world) =
       Some (JString ''London, UK'')
   \<and> put_shop example_env example_update_photo example_world =
     (Some (Response 200 (Doc (example_updated\<lparr>photo := ''/uploads/1700000123456.jpg''\<rparr>))),
      \<lparr> shops = [example_updated\<lparr>photo := ''/uploads/1700000123456.jpg''\<rparr>],
        files = {''public/uploads/1700000123456.jpg''},
        calls = [FindOne ''7f3c'', GeoRequest (Some ''51.5074'') (Some ''-0.1278''),
                 ExistsSync ''public/uploads/1700000000000.png'',
                 UnlinkSync ''public/uploads/1700000000000.png'',
                 Save (example_updated\<lparr>photo := ''/uploads/1700000123456.jpg''\<rparr>)] \<rparr>)
   \<and> photo example_shop = ''/uploads/1700000000000.png''
   \<and> public_path (photo example_shop) \<in> files example_world
   \<and> public_path (photo example_shop) \<notin> {''public/uploads/1700000123456.jpg''}
   \<and> files (snd (put_shop example_env example_update_photo example_world)) =
       files example_world - {public_path (photo example_shop)}
   \<and> nominatim example_env_pending (body_field example_update_photo ''latitude'')
        (body_field example_update_photo ''longitude'') = Pending
   \<and> calls (snd (put_shop example_env_pending example_update_photo example_world)) =
       [FindOne ''7f3c'', GeoRequest (Some ''51.5074'') (Some ''-0.1278'')]
   \<and> req_body (example_update_photo\<lparr>req_body := None\<rparr>) = None
   \<and> calls (snd (put_shop example_env (example_update_photo\<lparr>req_body := None\<rparr>)
        example_world)) = [FindOne ''7f3c'']
   \<and> files (snd (put_shop example_env (example_update_photo\<lparr>req_body := None\<rparr>)
        example_world)) = files example_world"
proof -
  have p: "photo example_shop = ''/uploads/1700000000000.png''"
    by (simp add: example_shop_def)
  have f: "findOne (req_params_id example_update_photo) (shops example_world) =
      Some (0, example_shop)"
    by (simp add: example_find)
  have x: "public_path (photo example_shop) \<in> files example_world"
    "public_path (photo example_shop) \<notin> {''public/uploads/1700000123456.jpg''}"
    by (simp_all add: p public_path_def example_world_def)
  have q: "photo example_shop \<noteq> []" by (simp add: p)
  have b: "req_body example_update_photo \<noteq> None" by simp
  have g: "fst (getPlaceName example_env (body_field example_update_photo ''latitude'')
        (body_field example_update_photo ''longitude'') example_world) =
       Some (JString ''London, UK'')"
    by (simp add: example_London)
  have pe: "db_find_ok example_env_pending"
    "nominatim example_env_pending (body_field example_update_photo ''latitude'')
        (body_field example_update_photo ''longitude'') = Pending"
    by (simp_all add: example_env_pending_def)
  note t = put_with_file_order [of example_update_photo "''1700000123456.jpg''" example_env
      example_world 0 example_shop "JString ''London, UK''",
      OF example_request_fields(9) example_env_fields(2) f]
  from t b g have "files (snd (put_shop example_env example_update_photo example_world)) =
       files example_world - {public_path (photo example_shop)}"
    using q by simp
  moreover
  note t' = put_with_file_order [of example_update_photo "''1700000123456.jpg''"
      example_env_pending example_world 0 example_shop,
      OF example_request_fields(9) pe(1) f]
  from t' pe(2)
  have "calls (snd (put_shop example_env_pending example_update_photo example_world)) =
       [FindOne ''7f3c'', GeoRequest (Some ''51.5074'') (Some ''-0.1278'')]"
    by (simp add: example_world_def)
  moreover
  let ?r = "example_update_photo\<lparr>req_body := None\<rparr>"
  have r0: "req_file ?r = Some ''1700000123456.jpg''" "req_params_id ?r = ''7f3c''"
    "req_body ?r = None"
    by simp_all
  have f0: "findOne (req_params_id ?r) (shops example_world) = Some (0, example_shop)"
    by (simp add: example_find)
  note t0 = put_with_file_order [of ?r "''1700000123456.jpg''" example_env example_world 0
      example_shop, OF r0(1) example_env_fields(2) f0]
  from t0 r0(3)
  have "calls (snd (put_shop example_env ?r example_world)) = [FindOne ''7f3c'']
    \<and> files (snd (put_shop example_env ?r example_world)) = files example_world"
    by (simp add: example_world_def)
  ultimately show ?thesis
    using example_update_photo_run p f x b g pe(2) by simp
qed

text \<open>
  C1 as the specification states it does not hold. In the successful update of the
  example the old file is unlinked before the \<^verbatim>\<open>save\<close>. When the store refuses that \<^verbatim>\<open>save\<close>, the response is 500,
  the stored document still has the old reference, and the old file is gone.
\<close>

theorem put_with_file_counterexample:
  "put_shop example_env example_update_photo example_world =
     (Some (Response 200 (Doc (example_updated\<lparr>photo := ''/uploads/1700000123456.jpg''\<rparr>))),
      \<lparr> shops = [example_updated\<lparr>photo := ''/uploads/1700000123456.jpg''\<rparr>],
        files = {''public/uploads/1700000123456.jpg''},
        calls = [FindOne ''7f3c'', GeoRequest (Some ''51.5074'') (Some ''-0.1278''),
                 ExistsSync ''public/uploads/1700000000000.png'',
                 UnlinkSync ''public/uploads/1700000000000.png'',
                 Save (example_updated\<lparr>photo := ''/uploads/1700000123456.jpg''\<rparr>)] \<rparr>)
   \<and> \<not> unlink_after_save
         (calls (snd (put_shop example_env example_update_photo example_world)))
   \<and> put_shop example_env_down example_update_photo example_world =
     (Some (Response 500 (Error ''Failed to update shop'')),
      \<lparr> shops = [example_shop],
        files = {''public/uploads/1700000123456.jpg''},
        calls = [FindOne ''7f3c'', GeoRequest (Some ''51.5074'') (Some ''-0.1278''),
                 ExistsSync ''public/uploads/1700000000000.png'',
                 UnlinkSync ''public/uploads/1700000000000.png'',
                 Save (example_updated\<lparr>photo := ''/uploads/1700000123456.jpg''\<rparr>)] \<rparr>)
   \<and> \<not> dangling example_world
   \<and> dangling (snd (put_shop example_env_down example_update_photo example_world))"
proof -
  have p: "photo example_shop = ''/uploads/1700000000000.png''"
    by (simp add: example_shop_def)
  have e: "db_find_ok example_env_down" "\<not> db_save_ok example_env_down"
    "now example_env_down = now example_env"
    "getPlaceName example_env_down (Some ''51.5074'') (Some ''-0.1278'') s =
       getPlaceName example_env (Some ''51.5074'') (Some ''-0.1278'') s" for s
    by (simp_all add: example_env_down_def getPlaceName_def)
  have d: "put_doc example_env_down example_update_photo ''London, UK'' example_shop =
      example_updated\<lparr>photo := ''/uploads/1700000123456.jpg''\<rparr>"
    using example_update_doc(2) by (simp add: put_doc_def put_fields_def e)
  have "put_shop example_env_down example_update_photo example_world =
      put_save example_env_down 0 (example_updated\<lparr>photo := ''/uploads/1700000123456.jpg''\<rparr>)
        (snd (remove_photo ''/uploads/1700000000000.png''
           (call (GeoRequest (Some ''51.5074'') (Some ''-0.1278''))
              (call (FindOne ''7f3c'') example_world))))"
    using put_shop_eq [of example_env_down example_update_photo example_world 0 example_shop]
      example_find
    by (simp add: e p example_London put_finish_def d)
  then have down: "put_shop example_env_down example_update_photo example_world =
     (Some (Response 500 (Error ''Failed to update shop'')),
      \<lparr> shops = [example_shop],
        files = {''public/uploads/1700000123456.jpg''},
        calls = [FindOne ''7f3c'', GeoRequest (Some ''51.5074'') (Some ''-0.1278''),
                 ExistsSync ''public/uploads/1700000000000.png'',
                 UnlinkSync ''public/uploads/1700000000000.png'',
                 Save (example_updated\<lparr>photo := ''/uploads/1700000123456.jpg''\<rparr>)] \<rparr>)"
    by (simp add: put_save_eq e remove_photo_eq public_path_def)
      (simp add: call_def example_world_def)
  have "\<not> dangling example_world"
    by (simp add: dangling_def example_world_def p public_path_def)
  moreover have "dangling (snd (put_shop example_env_down example_update_photo example_world))"
    by (simp add: down dangling_def p public_path_def)
  moreover have "\<not> unlink_after_save
         (calls (snd (put_shop example_env example_update_photo example_world)))"
    by (simp add: example_update_photo_run)
  ultimately show ?thesis using example_update_photo_run down by simp
qed

subsection \<open>C2: the place name of a failed geocoding\<close>

text \<open>
  C2, as the code has it. \<^verbatim>\<open>getPlaceName\<close> throws nothing: it returns a value exactly when
  the geocoder's call settles, and that value is truthy. It is a non-empty string when
  the reply's \<^verbatim>\<open>display_name\<close> is a string or is not truthy. When the call throws, or the
  reply has no truthy \<^verbatim>\<open>display_name\<close>, the result is "Unknown location"; a create with a
  valid body, a fresh non-empty identifier and a store that saves, and an update of an
  existing shop with a valid body and a store that finds and saves, succeed under such a
  failure, and the document they return and store has the place name "Unknown location".
\<close>

theorem getPlaceName_fallback:
  "(fst (getPlaceName e lat lon s) = None \<longleftrightarrow> nominatim e lat lon = Pending)
   \<and> (nominatim e lat lon \<noteq> Pending \<longrightarrow>
        (\<exists>v. fst (getPlaceName e lat lon s) = Some v \<and> truthy v))
   \<and> (nominatim e lat lon = Replied v \<and> (is_string v \<or> \<not> truthy v) \<longrightarrow>
        (\<exists>x. fst (getPlaceName e lat lon s) = Some (JString x) \<and> x \<noteq> []))
   \<and> (geo_failure (nominatim e lat lon) \<longrightarrow>
        fst (getPlaceName e lat lon s) = Some (JString ''Unknown location''))
   \<and> (req_body r = Some b \<and> valid_body b
        \<and> geo_failure (nominatim e (b ''latitude'') (b ''longitude''))
        \<and> db_save_ok e \<and> uuidv4 e \<noteq> []
        \<and> uuidv4 e \<notin> set (map id_shop (shops s)) \<longrightarrow>
        (\<exists>d. fst (post_shop e r s) = Some (Response 201 (Doc d))
           \<and> d \<in> set (shops (snd (post_shop e r s)))
           \<and> placeName (location d) = ''Unknown location''))
   \<and> (req_body r = Some b \<and> valid_body b
        \<and> geo_failure (nominatim e (b ''latitude'') (b ''longitude''))
        \<and> db_find_ok e \<and> db_save_ok e \<and> req_params_id r \<noteq> []
        \<and> req_params_id r \<in> set (map id_shop (shops s)) \<longrightarrow>
        (\<exists>d. fst (put_shop e r s) = Some (Response 200 (Doc d))
           \<and> d \<in> set (shops (snd (put_shop e r s)))
           \<and> placeName (location d) = ''Unknown location''))"
proof (intro conjI impI; (elim conjE)?)
  show "fst (getPlaceName e lat lon s) = None \<longleftrightarrow> nominatim e lat lon = Pending"
    by (rule getPlaceName_pending)
next
  assume "nominatim e lat lon \<noteq> Pending"
  then obtain v where v: "fst (getPlaceName e lat lon s) = Some v"
    using getPlaceName_pending [of e lat lon s] by (cases "fst (getPlaceName e lat lon s)") auto
  with getPlaceName_truthy [OF v]
  show "\<exists>v. fst (getPlaceName e lat lon s) = Some v \<and> truthy v" by simp
next
  assume r: "nominatim e lat lon = Replied v" and "is_string v \<or> \<not> truthy v"
  then show "\<exists>x. fst (getPlaceName e lat lon s) = Some (JString x) \<and> x \<noteq> []"
    by (cases v) (auto simp add: getPlaceName_fst)
next
  assume "geo_failure (nominatim e lat lon)"
  then show "fst (getPlaceName e lat lon s) = Some (JString ''Unknown location'')"
    by (rule getPlaceName_failure)
next
  let ?lat = "b ''latitude''" and ?lon = "b ''longitude''"
  assume body: "req_body r = Some b" "valid_body b"
    and fail: "geo_failure (nominatim e ?lat ?lon)"
    and save: "db_save_ok e" and id: "uuidv4 e \<noteq> []"
    and fresh: "uuidv4 e \<notin> set (map id_shop (shops s))"
  let ?d = "post_doc e r ''Unknown location''"
  have n: "fst (getPlaceName e ?lat ?lon s) = Some (JString ''Unknown location'')"
    using fail by (rule getPlaceName_failure)
  from post_shop_succeeds [OF body id fresh save n] obtain s'
    where run: "post_shop e r s = (Some (Response 201 (Doc ?d)), s')"
      and s': "shops s' = shops s @ [?d]"
    by auto
  have "placeName (location ?d) = ''Unknown location''" by (simp add: post_doc_def)
  with run s' show "\<exists>d. fst (post_shop e r s) = Some (Response 201 (Doc d))
           \<and> d \<in> set (shops (snd (post_shop e r s)))
           \<and> placeName (location d) = ''Unknown location''"
    by (intro exI [of _ ?d]) simp
next
  let ?lat = "b ''latitude''" and ?lon = "b ''longitude''"
  assume body: "req_body r = Some b" "valid_body b"
    and fail: "geo_failure (nominatim e ?lat ?lon)"
    and find: "db_find_ok e" and save: "db_save_ok e" and id: "req_params_id r \<noteq> []"
    and present: "req_params_id r \<in> set (map id_shop (shops s))"
  from present obtain k d0 where f: "findOne (req_params_id r) (shops s) = Some (k, d0)"
    using findOne_None_iff [of "req_params_id r" "shops s"]
    by (cases "findOne (req_params_id r) (shops s)") auto
  from findOne_SomeD [OF f] have k: "k < length (shops s)" by simp
  have n: "fst (getPlaceName e ?lat ?lon s) = Some (JString ''Unknown location'')"
    using fail by (rule getPlaceName_failure)
  let ?d = "put_doc e r ''Unknown location'' d0"
  from put_shop_succeeds [OF find f id body save n] obtain s'
    where run: "put_shop e r s = (Some (Response 200 (Doc ?d)), s')"
      and s': "shops s' = (shops s)[k := ?d]"
    by auto
  have "placeName (location ?d) = ''Unknown location''" by (simp add: put_doc_fields)
  with run s' k show "\<exists>d. fst (put_shop e r s) = Some (Response 200 (Doc d))
           \<and> d \<in> set (shops (snd (put_shop e r s)))
           \<and> placeName (location d) = ''Unknown location''"
    by (intro exI [of _ ?d]) (simp add: set_update_memI)
qed

theorem getPlaceName_fallback_witness:
  "nominatim example_env (Some ''48.8566'') (Some ''2.3522'') \<noteq> Pending
   \<and> geo_failure (nominatim example_env (Some ''48.8566'') (Some ''2.3522''))
   \<and> req_body example_update_paris = Some example_body_paris
   \<and> example_body_paris ''latitude'' = Some ''48.8566''
   \<and> example_body_paris ''longitude'' = Some ''2.3522''
   \<and> valid_body example_body_paris
   \<and> db_find_ok example_env \<and> db_save_ok example_env
   \<and> uuidv4 example_env \<noteq> []
   \<and> uuidv4 example_env \<notin> set (map id_shop (shops example_world))
   \<and> req_params_id example_update_paris \<noteq> []
   \<and> req_params_id example_update_paris \<in> set (map id_shop (shops example_world))
   \<and> fst (getPlaceName example_env (Some ''48.8566'') (Some ''2.3522'') example_world) =
        Some (JString ''Unknown location'')
   \<and> (\<exists>d. fst (post_shop example_env example_update_paris example_world) =
            Some (Response 201 (Doc d))
          \<and> d \<in> set (shops (snd (post_shop example_env example_update_paris example_world)))
          \<and> placeName (location d) = ''Unknown location'')
   \<and> (\<exists>d. fst (put_shop example_env example_update_paris example_world) =
            Some (Response 200 (Doc d))
          \<and> d \<in> set (shops (snd (put_shop example_env example_update_paris example_world)))
          \<and> placeName (location d) = ''Unknown location'')
   \<and> nominatim example_env (Some ''51.5074'') (Some ''-0.1278'') =
        Replied (JString ''London, UK'')
   \<and> is_string (JString ''London, UK'')
   \<and> (\<exists>x. fst (getPlaceName example_env (Some ''51.5074'') (Some ''-0.1278'') example_world) =
          Some (JString x) \<and> x \<noteq> [])"
proof -
  have b: "req_body example_update_paris = Some example_body_paris"
    "example_body_paris ''latitude'' = Some ''48.8566''"
    "example_body_paris ''longitude'' = Some ''2.3522''"
    by (simp_all add: example_update_paris_def example_body_paris_def)
  have v: "valid_body example_body_paris"
    by (simp add: valid_body_def required_def example_body_paris_def)
  have i: "req_params_id example_update_paris = ''7f3c''"
    "map id_shop (shops example_world) = [''7f3c'']"
    by (simp_all add: example_update_paris_def example_world_def example_shop_def)
  have g: "geo_failure (nominatim example_env (Some ''48.8566'') (Some ''2.3522''))"
    "nominatim example_env (Some ''48.8566'') (Some ''2.3522'') \<noteq> Pending"
    by (simp_all add: geo_failure_def example_nominatim)
  have l: "nominatim example_env (Some ''51.5074'') (Some ''-0.1278'') =
        Replied (JString ''London, UK'')"
    by (simp add: example_nominatim)
  note t = getPlaceName_fallback [of example_env "Some ''48.8566''" "Some ''2.3522''"
        example_world _ example_update_paris example_body_paris]
  note t2 = getPlaceName_fallback [of example_env "Some ''51.5074''" "Some ''-0.1278''"
        example_world "JString ''London, UK''" example_update_paris example_body_paris]
  from t2 l have x: "\<exists>x. fst (getPlaceName example_env (Some ''51.5074'')
      (Some ''-0.1278'') example_world) = Some (JString x) \<and> x \<noteq> []"
    by simp
  show ?thesis
    using t v g x l by (simp add: b i)
qed

text \<open>
  C2 as the specification states it does not hold. When the reply's \<^verbatim>\<open>display_name\<close> is
  the number 42, \<^verbatim>\<open>getPlaceName\<close> returns that number, which is not a string and not the
  sentinel, and the create stores the place name "42". When it is an object, the create
  with a valid body answers 500 and stores nothing. While the geocoder's call is pending,
  \<^verbatim>\<open>getPlaceName\<close> returns nothing and the create gives no answer.
\<close>

theorem getPlaceName_fallback_counterexample:
  "nominatim example_env_number (Some ''51.5074'') (Some ''-0.1278'') =
     Replied (JNumber True CHR ''4'' ''2'')
   \<and> fst (getPlaceName example_env_number (Some ''51.5074'') (Some ''-0.1278'') example_world) =
       Some (JNumber True CHR ''4'' ''2'')
   \<and> \<not> is_string (JNumber True CHR ''4'' ''2'')
   \<and> post_shop example_env_number example_create example_world =
       (Some (Response 201 (Doc (example_created\<lparr>location :=
           \<lparr>latitude = Some ''51.5074'', longitude = Some ''-0.1278'', placeName = ''42''\<rparr>\<rparr>))),
        \<lparr> shops = [example_shop, example_created\<lparr>location :=
           \<lparr>latitude = Some ''51.5074'', longitude = Some ''-0.1278'', placeName = ''42''\<rparr>\<rparr>],
          files = files example_world,
          calls = [GeoRequest (Some ''51.5074'') (Some ''-0.1278''),
                   Save (example_created\<lparr>location :=
           \<lparr>latitude = Some ''51.5074'', longitude = Some ''-0.1278'', placeName = ''42''\<rparr>\<rparr>)] \<rparr>)
   \<and> nominatim example_env_object (Some ''51.5074'') (Some ''-0.1278'') = Replied (JObject None)
   \<and> fst (getPlaceName example_env_object (Some ''51.5074'') (Some ''-0.1278'') example_world) =
       Some (JObject None)
   \<and> req_body example_create = Some example_body \<and> valid_body example_body
   \<and> db_save_ok example_env_object \<and> uuidv4 example_env_object = ''9b2e''
   \<and> map id_shop (shops example_world) = [''7f3c'']
   \<and> post_shop example_env_object example_create example_world =
       (Some (Response 500 (Error ''Failed to create shop'')),
        \<lparr> shops = [example_shop], files = files example_world,
          calls = [GeoRequest (Some ''51.5074'') (Some ''-0.1278''), SaveUncast] \<rparr>)
   \<and> nominatim example_env_pending (Some ''51.5074'') (Some ''-0.1278'') = Pending
   \<and> fst (getPlaceName example_env_pending (Some ''51.5074'') (Some ''-0.1278'') example_world) =
       None
   \<and> post_shop example_env_pending example_create example_world =
       (None,
        \<lparr> shops = [example_shop], files = files example_world,
          calls = [GeoRequest (Some ''51.5074'') (Some ''-0.1278'')] \<rparr>)"
proof -
  have e: "nominatim example_env_number (Some ''51.5074'') (Some ''-0.1278'') =
     Replied (JNumber True CHR ''4'' ''2'')"
    "nominatim example_env_object (Some ''51.5074'') (Some ''-0.1278'') = Replied (JObject None)"
    "nominatim example_env_pending (Some ''51.5074'') (Some ''-0.1278'') = Pending"
    "db_save_ok example_env_object" "uuidv4 example_env_object = ''9b2e''"
    "db_save_ok example_env_number" "uuidv4 example_env_number = ''9b2e''"
    "now example_env_number = now example_env"
    by (simp_all add: example_env_number_def example_env_object_def example_env_pending_def
        example_env_def)
  have g: "getPlaceName example_env_number (Some ''51.5074'') (Some ''-0.1278'') s =
      (Some (JNumber True CHR ''4'' ''2''), call (GeoRequest (Some ''51.5074'') (Some ''-0.1278'')) s)"
    "getPlaceName example_env_object (Some ''51.5074'') (Some ''-0.1278'') s =
      (Some (JObject None), call (GeoRequest (Some ''51.5074'') (Some ''-0.1278'')) s)"
    "getPlaceName example_env_pending (Some ''51.5074'') (Some ''-0.1278'') s =
      (None, call (GeoRequest (Some ''51.5074'') (Some ''-0.1278'')) s)" for s
    by (simp_all add: getPlaceName_def e)
  have v: "valid_body example_body" by (simp add: valid_body_def required_def)
  have i: "map id_shop (shops example_world) = [''7f3c'']"
    by (simp add: example_world_def example_shop_def)
  let ?d = "example_created\<lparr>location :=
           \<lparr>latitude = Some ''51.5074'', longitude = Some ''-0.1278'', placeName = ''42''\<rparr>\<rparr>"
  have d: "post_doc example_env_number example_create ''42'' = ?d"
    by (simp add: post_doc_def example_created_def e example_format)
  have vd: "validate ?d" "id_shop ?d = ''9b2e''"
    by (simp_all add: validate_def required_def example_created_def)
  have number: "post_shop example_env_number example_create example_world =
       (Some (Response 201 (Doc ?d)),
        \<lparr> shops = [example_shop, ?d], files = files example_world,
          calls = [GeoRequest (Some ''51.5074'') (Some ''-0.1278''), Save ?d] \<rparr>)"
    by (simp add: post_shop_eq g d post_save_eq vd e i)
      (simp add: call_def example_world_def)
  have object: "post_shop example_env_object example_create example_world =
       (Some (Response 500 (Error ''Failed to create shop'')),
        \<lparr> shops = [example_shop], files = files example_world,
          calls = [GeoRequest (Some ''51.5074'') (Some ''-0.1278''), SaveUncast] \<rparr>)"
    by (simp add: post_shop_eq g) (simp add: call_def example_world_def)
  have pending: "post_shop example_env_pending example_create example_world =
       (None,
        \<lparr> shops = [example_shop], files = files example_world,
          calls = [GeoRequest (Some ''51.5074'') (Some ''-0.1278'')] \<rparr>)"
    by (simp add: post_shop_eq g) (simp add: call_def example_world_def)
  show ?thesis
    using e(1-5) v i number object pending by (simp add: g)
qed

subsection \<open>C3: unknown identifiers\<close>

text \<open>
  C3. When the store answers and holds no document with the requested id, get, update and
  delete each respond 404 "Shop not found"; the only thing that happens is the lookup,
  which is logged: the collection and the files are as before. The handlers run after
  \<^verbatim>\<open>upload.single\<close> has stored a photo that came with the request; with that step counted
  in, the update of an unknown id still changes no document and removes no file.
\<close>

theorem not_found_no_mutation:
  assumes "db_find_ok e" and "req_params_id r \<notin> set (map id_shop (shops s))"
  shows "get_shop e r s = (Response 404 (Error ''Shop not found''), call (FindOne (req_params_id r)) s)
    \<and> put_shop e r s =
        (Some (Response 404 (Error ''Shop not found'')), call (FindOne (req_params_id r)) s)
    \<and> delete_shop e r s = (Response 404 (Error ''Shop not found''), call (FindOne (req_params_id r)) s)
    \<and> shops (call (FindOne (req_params_id r)) s) = shops s
    \<and> files (call (FindOne (req_params_id r)) s) = files s
    \<and> fst (put_shop e r (upload_single r s)) = Some (Response 404 (Error ''Shop not found''))
    \<and> shops (snd (put_shop e r (upload_single r s))) = shops s
    \<and> files s \<subseteq> files (snd (put_shop e r (upload_single r s)))"
proof -
  from assms(2) have none: "findOne (req_params_id r) (shops s) = None"
    by (simp add: findOne_None_iff)
  with assms(1) show ?thesis
    by (simp add: get_shop_def put_shop_def delete_shop_def Shop_findOne_def
        upload_single_files)
qed

theorem not_found_no_mutation_witness:
  "db_find_ok example_env
   \<and> req_params_id example_unknown \<notin> set (map id_shop (shops example_world))
   \<and> get_shop example_env example_unknown example_world =
       (Response 404 (Error ''Shop not found''),
        \<lparr>shops = [example_shop], files = files example_world, calls = [FindOne ''abc'']\<rparr>)
   \<and> put_shop example_env example_unknown example_world =
       (Some (Response 404 (Error ''Shop not found'')),
        \<lparr>shops = [example_shop], files = files example_world, calls = [FindOne ''abc'']\<rparr>)
   \<and> delete_shop example_env example_unknown example_world =
       (Response 404 (Error ''Shop not found''),
        \<lparr>shops = [example_shop], files = files example_world, calls = [FindOne ''abc'']\<rparr>)"
  using not_found_no_mutation [of example_env example_unknown example_world]
  by (simp add: example_unknown_def example_world_def example_shop_def call_def)

subsection \<open>C4: identifiers\<close>

text \<open>
  C4. The document a successful create returns has the identifier \<^verbatim>\<open>uuidv4()\<close> gave, which
  is not empty and is the identifier of no document that was in the collection; the
  collection grows by that one document, so identifiers that were pairwise distinct stay
  so. An update, whatever its outcome, leaves the identifier of every stored document as
  it was, and the document a successful update returns has the identifier of the request.
  Over any sequence of requests served one after the other, the identifiers in the
  collection stay pairwise distinct.
\<close>

theorem externalId_stable:
  "(post_shop e r s = (Some (Response 201 (Doc d)), s') \<longrightarrow>
      id_shop d = uuidv4 e \<and> id_shop d \<noteq> []
      \<and> id_shop d \<notin> set (map id_shop (shops s))
      \<and> shops s' = shops s @ [d]
      \<and> (distinct (map id_shop (shops s)) \<longrightarrow> distinct (map id_shop (shops s'))))
   \<and> map id_shop (shops (snd (put_shop e2 r2 s2))) = map id_shop (shops s2)
   \<and> (put_shop e2 r2 s2 = (Some (Response 200 (Doc d2)), s2') \<longrightarrow>
      id_shop d2 = req_params_id r2 \<and> d2 \<in> set (shops s2'))
   \<and> (distinct (map id_shop (shops s3)) \<longrightarrow> distinct (map id_shop (shops (serve rs s3))))"
proof (intro conjI impI)
  assume run: "post_shop e r s = (Some (Response 201 (Doc d)), s')"
  from post_shop_created [OF run] obtain n where d: "d = post_doc e r n"
    and v: "validate d" and new: "id_shop d \<notin> set (map id_shop (shops s))"
    and s': "shops s' = shops s @ [d]"
    by blast
  show "id_shop d = uuidv4 e" unfolding d by (simp add: post_doc_def)
  from v show "id_shop d \<noteq> []" by (simp add: validate_def)
  from new show "id_shop d \<notin> set (map id_shop (shops s))" .
  from s' show "shops s' = shops s @ [d]" .
  assume "distinct (map id_shop (shops s))"
  with new s' show "distinct (map id_shop (shops s'))" by simp
next
  show "map id_shop (shops (snd (put_shop e2 r2 s2))) = map id_shop (shops s2)"
    by (rule put_shop_ids)
next
  assume run: "put_shop e2 r2 s2 = (Some (Response 200 (Doc d2)), s2')"
  from put_shop_updated [OF run] obtain k d0 n
    where f: "findOne (req_params_id r2) (shops s2) = Some (k, d0)"
      and d: "d2 = put_doc e2 r2 n d0"
    by blast
  have "id_shop d2 = id_shop d0" unfolding d by simp
  with findOne_SomeD [OF f] show "id_shop d2 = req_params_id r2" by simp
  show "d2 \<in> set (shops s2')" by (rule put_shop_stored [OF run])
next
  assume "distinct (map id_shop (shops s3))"
  then show "distinct (map id_shop (shops (serve rs s3)))" by (rule serve_distinct)
qed

theorem externalId_stable_witness:
  "post_shop example_env example_create example_world =
     (Some (Response 201 (Doc example_created)),
      \<lparr> shops = [example_shop, example_created], files = files example_world,
        calls = [GeoRequest (Some ''51.5074'') (Some ''-0.1278''), Save example_created] \<rparr>)
   \<and> distinct (map id_shop (shops example_world))
   \<and> put_shop example_env example_update example_world =
       (Some (Response 200 (Doc example_updated)),
        \<lparr> shops = [example_updated], files = files example_world,
          calls = [FindOne ''7f3c'', GeoRequest (Some ''51.5074'') (Some ''-0.1278''),
                   Save example_updated] \<rparr>)
   \<and> id_shop example_created = ''9b2e''
   \<and> map id_shop [example_shop, example_created] = [''7f3c'', ''9b2e'']
   \<and> id_shop example_updated = id_shop example_shop
   \<and> map id_shop (shops (snd (put_shop example_env example_update example_world))) = [''7f3c'']
   \<and> shops (serve [(POST, example_env, example_create), (POST, example_env, example_create)]
         example_world) = [example_shop, example_created]
   \<and> distinct (map id_shop (shops
         (serve [(POST, example_env, example_create), (POST, example_env, example_create)]
            example_world)))"
proof -
  let ?w = "\<lparr> shops = [example_shop, example_created], files = files example_world,
        calls = [GeoRequest (Some ''51.5074'') (Some ''-0.1278''), Save example_created] \<rparr>"
  have again: "shops (snd (post_shop example_env example_create ?w)) =
      [example_shop, example_created]"
    by (simp add: post_shop_eq post_save_eq Let_def example_London example_created_def
        post_doc_def)
  have twice: "shops (serve [(POST, example_env, example_create),
      (POST, example_env, example_create)] example_world) = [example_shop, example_created]"
    by (simp add: example_create_run again)
  show ?thesis
    using example_create_run example_update_run twice
      externalId_stable [of example_env example_create example_world example_created ?w
        example_env example_update example_world example_updated
        "\<lparr> shops = [example_updated], files = files example_world,
          calls = [FindOne ''7f3c'', GeoRequest (Some ''51.5074'') (Some ''-0.1278''),
                   Save example_updated] \<rparr>"
        example_world
        "[(POST, example_env, example_create), (POST, example_env, example_create)]"]
    by (simp add: example_world_def example_shop_def example_updated_def example_created_def)
qed

subsection \<open>C5: a required field is missing\<close>

text \<open>
  C5, as the code has it. A create whose body lacks one of the five required text fields,
  or has it empty, stores nothing and makes no call to the filesystem; a photo that
  \<^verbatim>\<open>upload.single\<close> stored before the handler ran stays where it is. The only answer the
  handler gives is 500 "Failed to create shop". When the request has no body at all it
  answers at once, without asking the geocoder. Otherwise it first asks the geocoder;
  while that call is pending there is no answer, and once it has settled the handler
  calls \<^verbatim>\<open>save\<close>, which rejects the document, and answers 500.
\<close>

theorem post_missing_field:
  assumes "f \<in> set required_text" and "\<not> required (body_field r f)"
  shows "shops (snd (post_shop e r s)) = shops s
    \<and> files (snd (post_shop e r s)) = files s
    \<and> filter fs_event (calls (snd (post_shop e r s))) = filter fs_event (calls s)
    \<and> files (snd (post_shop e r (upload_single r s))) = files (upload_single r s)
    \<and> (req_file r = Some filename \<longrightarrow>
        ''public/uploads/'' @ filename \<in> files (snd (post_shop e r (upload_single r s))))
    \<and> (fst (post_shop e r s) = None
        \<or> fst (post_shop e r s) = Some (Response 500 (Error ''Failed to create shop'')))
    \<and> (req_body r = None \<longrightarrow>
        post_shop e r s = (Some (Response 500 (Error ''Failed to create shop'')), s))
    \<and> (req_body r \<noteq> None \<longrightarrow>
        (fst (post_shop e r s) = None \<longleftrightarrow>
           nominatim e (body_field r ''latitude'') (body_field r ''longitude'') = Pending)
        \<and> GeoRequest (body_field r ''latitude'') (body_field r ''longitude'')
            \<in> set (calls (snd (post_shop e r s)))
        \<and> calls (snd (post_shop e r s)) =
            calls (snd (getPlaceName e (body_field r ''latitude'') (body_field r ''longitude'') s))
            @ (case fst (getPlaceName e (body_field r ''latitude'')
                       (body_field r ''longitude'') s) of
                 None \<Rightarrow> []
               | Some v \<Rightarrow>
                   (case castString v of
                      None \<Rightarrow> [SaveUncast]
                    | Some n \<Rightarrow> [Save (post_doc e r n)])))"
proof (cases "req_body r")
  case None
  then show ?thesis by (simp add: post_shop_eq upload_single_def)
next
  case (Some b)
  have inv: "\<not> validate (post_doc e r n)" for n
    using assms by (rule post_doc_invalid)
  let ?p = "\<lambda>s. getPlaceName e (b ''latitude'') (b ''longitude'') s"
  have run: "post_shop e r s =
      (case fst (?p s) of
         None \<Rightarrow> (None, snd (?p s))
       | Some v \<Rightarrow>
           (Some (Response 500 (Error ''Failed to create shop'')),
            call (case castString v of None \<Rightarrow> SaveUncast | Some n \<Rightarrow> Save (post_doc e r n))
              (snd (?p s))))" for s
    using Some by (simp add: post_shop_eq post_save_eq inv Let_def split: option.splits)
  have p: "fst (?p s) = None \<longleftrightarrow> nominatim e (b ''latitude'') (b ''longitude'') = Pending"
    by (rule getPlaceName_pending)
  have 1: "shops (snd (post_shop e r s)) = shops s" "files (snd (post_shop e r s)) = files s"
    "filter fs_event (calls (snd (post_shop e r s))) = filter fs_event (calls s)"
    by (simp_all add: run split: option.splits)
  have 2: "files (snd (post_shop e r (upload_single r s))) = files (upload_single r s)"
    by (simp add: run split: option.splits)
  have 7: "req_file r = Some filename \<longrightarrow>
        ''public/uploads/'' @ filename \<in> files (snd (post_shop e r (upload_single r s)))"
  proof -
    have "files (snd (post_shop e r w)) = files w" for w
      by (simp add: run split: option.splits)
    then show ?thesis by (simp add: upload_single_def)
  qed
  have 3: "fst (post_shop e r s) = None
        \<or> fst (post_shop e r s) = Some (Response 500 (Error ''Failed to create shop''))"
    by (simp add: run split: option.splits)
  have 4: "fst (post_shop e r s) = None \<longleftrightarrow>
      nominatim e (b ''latitude'') (b ''longitude'') = Pending"
    using p by (cases "fst (?p s)") (simp_all add: run)
  have 5: "GeoRequest (b ''latitude'') (b ''longitude'') \<in> set (calls (snd (post_shop e r s)))"
    by (simp add: run getPlaceName_calls split: option.splits)
  have 6: "calls (snd (post_shop e r s)) =
            calls (snd (?p s))
            @ (case fst (?p s) of
                 None \<Rightarrow> []
               | Some v \<Rightarrow>
                   (case castString v of
                      None \<Rightarrow> [SaveUncast]
                    | Some n \<Rightarrow> [Save (post_doc e r n)]))"
    by (simp add: run split: option.splits)
  from 1 2 3 4 5 6 7 Some show ?thesis by simp
qed

theorem post_missing_field_witness:
  "''ownerName'' \<in> set required_text
   \<and> \<not> required (body_field example_create_anonymous ''ownerName'')
   \<and> req_body example_create_anonymous \<noteq> None
   \<and> nominatim example_env (Some ''51.5074'') (Some ''-0.1278'') \<noteq> Pending
   \<and> fst (post_shop example_env example_create_anonymous example_world) =
       Some (Response 500 (Error ''Failed to create shop''))
   \<and> shops (snd (post_shop example_env example_create_anonymous example_world)) = [example_shop]
   \<and> GeoRequest (Some ''51.5074'') (Some ''-0.1278'')
       \<in> set (calls (snd (post_shop example_env example_create_anonymous example_world)))
   \<and> \<not> required (body_field example_create_anonymous_photo ''ownerName'')
   \<and> req_file example_create_anonymous_photo = Some ''1700000999999.jpg''
   \<and> ''public/uploads/1700000999999.jpg'' \<notin> files example_world
   \<and> ''public/uploads/1700000999999.jpg''
       \<in> files (snd (post_shop example_env example_create_anonymous_photo
             (upload_single example_create_anonymous_photo example_world)))
   \<and> \<not> required (body_field example_create_empty ''ownerName'')
   \<and> req_body example_create_empty = None
   \<and> post_shop example_env example_create_empty example_world =
       (Some (Response 500 (Error ''Failed to create shop'')), example_world)"
proof -
  have m: "''ownerName'' \<in> set required_text" by (simp add: required_text_def)
  have h: "\<not> required (body_field example_create_anonymous ''ownerName'')"
    by (simp add: required_def body_field_def example_create_anonymous_def
        example_body_anonymous_def)
  have h0: "\<not> required (body_field example_create_empty ''ownerName'')"
    by (simp add: required_def body_field_def example_create_empty_def)
  have hp: "\<not> required (body_field example_create_anonymous_photo ''ownerName'')"
    "req_file example_create_anonymous_photo = Some ''1700000999999.jpg''"
    "''public/uploads/1700000999999.jpg'' \<notin> files example_world"
    by (simp_all add: required_def body_field_def example_create_anonymous_photo_def
        example_body_anonymous_def example_world_def)
  have b: "body_field example_create_anonymous ''latitude'' = Some ''51.5074''"
    "body_field example_create_anonymous ''longitude'' = Some ''-0.1278''"
    "shops example_world = [example_shop]"
    by (simp_all add: body_field_def example_create_anonymous_def example_body_anonymous_def
        example_world_def)
  have n: "req_body example_create_anonymous \<noteq> None"
    "nominatim example_env (Some ''51.5074'') (Some ''-0.1278'') \<noteq> Pending"
    "req_body example_create_empty = None"
    by (simp_all add: example_create_anonymous_def example_create_empty_def example_nominatim)
  note run = post_missing_field [OF m h, of example_env example_world, unfolded b]
  note run0 = post_missing_field [OF m h0, of example_env example_world]
  from run n(1,2)
  have a: "fst (post_shop example_env example_create_anonymous example_world) =
       Some (Response 500 (Error ''Failed to create shop''))"
    by blast
  from run n(1)
  have c: "shops (snd (post_shop example_env example_create_anonymous example_world)) =
      [example_shop]"
    "GeoRequest (Some ''51.5074'') (Some ''-0.1278'')
       \<in> set (calls (snd (post_shop example_env example_create_anonymous example_world)))"
    by blast+
  note runp = post_missing_field [OF m hp(1), where filename = "''1700000999999.jpg''"
      and e = example_env and s = example_world]
  from runp [THEN conjunct2, THEN conjunct2, THEN conjunct2, THEN conjunct2, THEN conjunct1]
    hp(2)
  have u: "''public/uploads/1700000999999.jpg''
       \<in> files (snd (post_shop example_env example_create_anonymous_photo
             (upload_single example_create_anonymous_photo example_world)))"
    by simp
  from run0 n(3)
  have z: "post_shop example_env example_create_empty example_world =
       (Some (Response 500 (Error ''Failed to create shop'')), example_world)"
    by blast
  from m h h0 hp u n a c z show ?thesis by blast
qed

text \<open>
  C5 as the specification states it does not hold: for the body without an owner's name
  the response is 500, not a 4xx, and the geocoder has been asked.
\<close>

theorem post_missing_field_counterexample:
  "example_body_anonymous ''ownerName'' = None
   \<and> post_shop example_env example_create_anonymous example_world =
       (Some (Response 500 (Error ''Failed to create shop'')),
        \<lparr> shops = [example_shop], files = files example_world,
          calls = [GeoRequest (Some ''51.5074'') (Some ''-0.1278''),
                   Save (example_created\<lparr>ownerName := None\<rparr>)] \<rparr>)
   \<and> \<not> client_error (Response 500 (Error ''Failed to create shop''))
   \<and> list_ex geo_event
        (calls (snd (post_shop example_env example_create_anonymous example_world)))"
proof -
  have b: "req_body example_create_anonymous = Some example_body_anonymous"
    "example_body_anonymous ''latitude'' = Some ''51.5074''"
    "example_body_anonymous ''longitude'' = Some ''-0.1278''"
    "example_body_anonymous ''ownerName'' = None"
    by (simp_all add: example_create_anonymous_def example_body_anonymous_def)
  have d: "post_doc example_env example_create_anonymous ''London, UK'' =
      example_created\<lparr>ownerName := None\<rparr>"
    by (simp add: post_doc_def body_field_def example_create_anonymous_def
        example_body_anonymous_def example_created_def example_format)
  have v: "\<not> validate (example_created\<lparr>ownerName := None\<rparr>)"
    by (simp add: validate_def required_def)
  have "post_shop example_env example_create_anonymous example_world =
       (Some (Response 500 (Error ''Failed to create shop'')),
        \<lparr> shops = [example_shop], files = files example_world,
          calls = [GeoRequest (Some ''51.5074'') (Some ''-0.1278''),
                   Save (example_created\<lparr>ownerName := None\<rparr>)] \<rparr>)"
    by (simp add: post_shop_eq post_save_eq b example_London d v)
      (simp add: call_def example_world_def)
  then show ?thesis by (simp add: b)
qed

subsection \<open>C6: the place name\<close>

text \<open>
  C6. The document a successful create or a successful update returns is stored, and its
  place name is what \<^verbatim>\<open>getPlaceName\<close> gives for the coordinates of that request (in
  whatever state of the world it is called), as the schema casts it to a string: the
  very string when it is one; in particular it is "London, UK" when the geocoder replies
  so. The document found by an update, and so its former place name, plays no part.
\<close>

theorem placeName_recomputed:
  "(post_shop e r s = (Some (Response 201 (Doc d)), s') \<longrightarrow>
      (\<exists>v. fst (getPlaceName e (body_field r ''latitude'') (body_field r ''longitude'') w)
            = Some v
          \<and> castString v = Some (placeName (location d))
          \<and> (is_string v \<longrightarrow> v = JString (placeName (location d))))
      \<and> d \<in> set (shops s')
      \<and> (nominatim e (body_field r ''latitude'') (body_field r ''longitude'') =
            Replied (JString ''London, UK'') \<longrightarrow> placeName (location d) = ''London, UK''))
   \<and> (put_shop e2 r2 s2 = (Some (Response 200 (Doc d2)), s2') \<longrightarrow>
      (\<exists>v. fst (getPlaceName e2 (body_field r2 ''latitude'') (body_field r2 ''longitude'') w)
            = Some v
          \<and> castString v = Some (placeName (location d2))
          \<and> (is_string v \<longrightarrow> v = JString (placeName (location d2))))
      \<and> d2 \<in> set (shops s2')
      \<and> (nominatim e2 (body_field r2 ''latitude'') (body_field r2 ''longitude'') =
            Replied (JString ''London, UK'') \<longrightarrow> placeName (location d2) = ''London, UK''))"
proof -
  have str: "is_string v \<longrightarrow> v = JString n" if "castString v = Some n" for v n
    using that by (cases v) simp_all
  have london: "fst (getPlaceName e a b s) = Some (JString ''London, UK'')"
    if "nominatim e a b = Replied (JString ''London, UK'')" for e a b s
    using that by (simp add: getPlaceName_fst)
  have create: "(\<exists>v. fst (getPlaceName e (body_field r ''latitude'')
            (body_field r ''longitude'') s) = Some v
          \<and> castString v = Some (placeName (location d)))
    \<and> d \<in> set (shops s')"
    if run: "post_shop e r s = (Some (Response 201 (Doc d)), s')"
  proof -
    from post_shop_created [OF run] obtain v n
      where v: "fst (getPlaceName e (body_field r ''latitude'')
            (body_field r ''longitude'') s) = Some v"
        and n: "castString v = Some n" and d: "d = post_doc e r n"
        and s': "shops s' = shops s @ [d]"
      by blast
    have "placeName (location d) = n" unfolding d by (simp add: post_doc_def)
    with v n s' show ?thesis by simp
  qed
  have update: "(\<exists>v. fst (getPlaceName e2 (body_field r2 ''latitude'')
            (body_field r2 ''longitude'') s2) = Some v
          \<and> castString v = Some (placeName (location d2)))
    \<and> d2 \<in> set (shops s2')"
    if run: "put_shop e2 r2 s2 = (Some (Response 200 (Doc d2)), s2')"
    using put_shop_placeName [OF run] put_shop_stored [OF run] by simp
  show ?thesis
  proof (intro conjI impI)
    assume run: "post_shop e r s = (Some (Response 201 (Doc d)), s')"
    from create [OF run] obtain v
      where v: "fst (getPlaceName e (body_field r ''latitude'')
            (body_field r ''longitude'') s) = Some v"
        and n: "castString v = Some (placeName (location d))"
      by blast
    from v have "fst (getPlaceName e (body_field r ''latitude'')
            (body_field r ''longitude'') w) = Some v"
      using getPlaceName_fst_indep [of e _ _ s w] by simp
    with n str [OF n]
    show "\<exists>v. fst (getPlaceName e (body_field r ''latitude'') (body_field r ''longitude'') w)
            = Some v
          \<and> castString v = Some (placeName (location d))
          \<and> (is_string v \<longrightarrow> v = JString (placeName (location d)))"
      by blast
    from create [OF run] show "d \<in> set (shops s')" by simp
    assume "nominatim e (body_field r ''latitude'') (body_field r ''longitude'') =
      Replied (JString ''London, UK'')"
    from london [OF this, of s] v n show "placeName (location d) = ''London, UK''"
      by simp
  next
    assume run: "put_shop e2 r2 s2 = (Some (Response 200 (Doc d2)), s2')"
    from update [OF run] obtain v
      where v: "fst (getPlaceName e2 (body_field r2 ''latitude'')
            (body_field r2 ''longitude'') s2) = Some v"
        and n: "castString v = Some (placeName (location d2))"
      by blast
    from v have "fst (getPlaceName e2 (body_field r2 ''latitude'')
            (body_field r2 ''longitude'') w) = Some v"
      using getPlaceName_fst_indep [of e2 _ _ s2 w] by simp
    with n str [OF n]
    show "\<exists>v. fst (getPlaceName e2 (body_field r2 ''latitude'') (body_field r2 ''longitude'') w)
            = Some v
          \<and> castString v = Some (placeName (location d2))
          \<and> (is_string v \<longrightarrow> v = JString (placeName (location d2)))"
      by blast
    from update [OF run] show "d2 \<in> set (shops s2')" by simp
    assume "nominatim e2 (body_field r2 ''latitude'') (body_field r2 ''longitude'') =
      Replied (JString ''London, UK'')"
    from london [OF this, of s2] v n show "placeName (location d2) = ''London, UK''"
      by simp
  qed
qed

theorem placeName_recomputed_witness:
  "post_shop example_env example_create example_world =
     (Some (Response 201 (Doc example_created)),
      \<lparr> shops = [example_shop, example_created], files = files example_world,
        calls = [GeoRequest (Some ''51.5074'') (Some ''-0.1278''), Save example_created] \<rparr>)
   \<and> put_shop example_env example_update example_world =
       (Some (Response 200 (Doc example_updated)),
        \<lparr> shops = [example_updated], files = files example_world,
          calls = [FindOne ''7f3c'', GeoRequest (Some ''51.5074'') (Some ''-0.1278''),
                   Save example_updated] \<rparr>)
   \<and> nominatim example_env (body_field example_create ''latitude'')
        (body_field example_create ''longitude'') = Replied (JString ''London, UK'')
   \<and> nominatim example_env (body_field example_update ''latitude'')
        (body_field example_update ''longitude'') = Replied (JString ''London, UK'')
   \<and> placeName (location example_created) = ''London, UK''
   \<and> placeName (location example_updated) = ''London, UK''
   \<and> placeName (location example_shop) = ''Paris, France''
   \<and> put_shop example_env example_update_paris example_world =
       (Some (Response 200 (Doc example_updated_paris)),
        \<lparr> shops = [example_updated_paris], files = files example_world,
          calls = [FindOne ''7f3c'', GeoRequest (Some ''48.8566'') (Some ''2.3522''),
                   ConsoleError ''Reverse geocoding failed: timeout'',
                   Save example_updated_paris] \<rparr>)
   \<and> body_field example_update_paris ''latitude'' = latitude (location example_shop)
   \<and> body_field example_update_paris ''longitude'' = longitude (location example_shop)
   \<and> placeName (location example_updated_paris) = ''Unknown location''
   \<and> fst (getPlaceName example_env (body_field example_update_paris ''latitude'')
        (body_field example_update_paris ''longitude'') example_world) =
       Some (JString ''Unknown location'')
   \<and> is_string (JString ''Unknown location'')"
proof -
  have p: "body_field example_update_paris ''latitude'' = Some ''48.8566''"
    "body_field example_update_paris ''longitude'' = Some ''2.3522''"
    by (simp_all add: body_field_def example_update_paris_def example_body_paris_def)
  have g: "fst (getPlaceName example_env (Some ''48.8566'') (Some ''2.3522'') w) =
      Some (JString ''Unknown location'')" for w
    by (simp add: getPlaceName_fst example_nominatim)
  note t = placeName_recomputed [of example_env example_create example_world example_created
        "\<lparr> shops = [example_shop, example_created], files = files example_world,
          calls = [GeoRequest (Some ''51.5074'') (Some ''-0.1278''), Save example_created] \<rparr>"
        example_world example_env example_update example_world example_updated
        "\<lparr> shops = [example_updated], files = files example_world,
          calls = [FindOne ''7f3c'', GeoRequest (Some ''51.5074'') (Some ''-0.1278''),
                   Save example_updated] \<rparr>"]
  note t2 = placeName_recomputed [of example_env example_create example_world example_created
        "\<lparr> shops = [example_shop, example_created], files = files example_world,
          calls = [GeoRequest (Some ''51.5074'') (Some ''-0.1278''), Save example_created] \<rparr>"
        example_world example_env example_update_paris example_world example_updated_paris
        "\<lparr> shops = [example_updated_paris], files = files example_world,
          calls = [FindOne ''7f3c'', GeoRequest (Some ''48.8566'') (Some ''2.3522''),
                   ConsoleError ''Reverse geocoding failed: timeout'',
                   Save example_updated_paris] \<rparr>"]
  have n: "nominatim example_env (body_field example_create ''latitude'')
        (body_field example_create ''longitude'') = Replied (JString ''London, UK'')"
    "nominatim example_env (body_field example_update ''latitude'')
        (body_field example_update ''longitude'') = Replied (JString ''London, UK'')"
    by (simp_all add: example_nominatim)
  from t example_create_run example_update_run n
  have l: "placeName (location example_created) = ''London, UK''"
    "placeName (location example_updated) = ''London, UK''"
    by blast+
  from t2 example_update_paris_run p g [of example_world]
  have u: "placeName (location example_updated_paris) = ''Unknown location''"
    by auto
  have s: "placeName (location example_shop) = ''Paris, France''"
    "latitude (location example_shop) = Some ''48.8566''"
    "longitude (location example_shop) = Some ''2.3522''"
    by (simp_all add: example_shop_def)
  show ?thesis
    using example_create_run example_update_run example_update_paris_run n l u s p g
    by simp
qed

subsection \<open>C7: create, then get\<close>

text \<open>
  C7. A create succeeds exactly when the request has a valid body, the identifier is
  fresh and not empty, the store saves, and the geocoder's call settles with a place
  name that the schema casts to a string. After a successful create, a get for the
  returned id (with the store answering) returns the very document the create returned.
  That document carries the request's fields as given, a non-empty id, a non-empty
  timestamp, a non-empty place name, and the photo reference of the staged upload (the
  empty string when there is none).
\<close>

theorem create_then_get:
  "((\<exists>d s'. post_shop e r s = (Some (Response 201 (Doc d)), s')) \<longleftrightarrow>
      (\<exists>b v. req_body r = Some b \<and> valid_body b \<and> uuidv4 e \<noteq> []
         \<and> uuidv4 e \<notin> set (map id_shop (shops s)) \<and> db_save_ok e
         \<and> fst (getPlaceName e (b ''latitude'') (b ''longitude'') s) = Some v
         \<and> castString v \<noteq> None))
   \<and> (post_shop e r s = (Some (Response 201 (Doc d)), s') \<and> db_find_ok e'
      \<and> req_params_id g = id_shop d \<longrightarrow>
      get_shop e' g s' = (Response 200 (Doc d), call (FindOne (id_shop d)) s')
      \<and> id_shop d \<noteq> [] \<and> timestamp d \<noteq> [] \<and> placeName (location d) \<noteq> []
      \<and> photo d = (case req_file r of Some filename \<Rightarrow> ''/uploads/'' @ filename | None \<Rightarrow> [])
      \<and> ownerName d = body_field r ''ownerName''
      \<and> contactNumber d = body_field r ''contactNumber''
      \<and> shopNumber d = body_field r ''shopNumber''
      \<and> address d = body_field r ''address''
      \<and> description d = body_field r ''description''
      \<and> latitude (location d) = body_field r ''latitude''
      \<and> longitude (location d) = body_field r ''longitude'')"
proof (rule conjI)
  show "(\<exists>d s'. post_shop e r s = (Some (Response 201 (Doc d)), s')) \<longleftrightarrow>
      (\<exists>b v. req_body r = Some b \<and> valid_body b \<and> uuidv4 e \<noteq> []
         \<and> uuidv4 e \<notin> set (map id_shop (shops s)) \<and> db_save_ok e
         \<and> fst (getPlaceName e (b ''latitude'') (b ''longitude'') s) = Some v
         \<and> castString v \<noteq> None)"
  proof
    assume "\<exists>d s'. post_shop e r s = (Some (Response 201 (Doc d)), s')"
    then obtain d s' where run: "post_shop e r s = (Some (Response 201 (Doc d)), s')"
      by blast
    from post_shop_created [OF run] obtain v n
      where b: "req_body r \<noteq> None"
        and v: "fst (getPlaceName e (body_field r ''latitude'')
            (body_field r ''longitude'') s) = Some v"
        and n: "castString v = Some n" and d: "d = post_doc e r n"
        and ok: "validate d" "db_save_ok e" "id_shop d \<notin> set (map id_shop (shops s))"
      by blast
    from b obtain m where m: "req_body r = Some m" by auto
    from ok(1) m have "valid_body m" "uuidv4 e \<noteq> []"
      unfolding d by (simp_all add: validate_post_doc_iff)
    moreover from ok(3) have "uuidv4 e \<notin> set (map id_shop (shops s))"
      unfolding d by (simp add: post_doc_def)
    moreover from v m
    have "fst (getPlaceName e (m ''latitude'') (m ''longitude'') s) = Some v" by simp
    ultimately show "\<exists>b v. req_body r = Some b \<and> valid_body b \<and> uuidv4 e \<noteq> []
         \<and> uuidv4 e \<notin> set (map id_shop (shops s)) \<and> db_save_ok e
         \<and> fst (getPlaceName e (b ''latitude'') (b ''longitude'') s) = Some v
         \<and> castString v \<noteq> None"
      using m n ok(2) by auto
  next
    assume "\<exists>b v. req_body r = Some b \<and> valid_body b \<and> uuidv4 e \<noteq> []
         \<and> uuidv4 e \<notin> set (map id_shop (shops s)) \<and> db_save_ok e
         \<and> fst (getPlaceName e (b ''latitude'') (b ''longitude'') s) = Some v
         \<and> castString v \<noteq> None"
    then obtain b v n where h: "req_body r = Some b" "valid_body b" "uuidv4 e \<noteq> []"
      "uuidv4 e \<notin> set (map id_shop (shops s))" "db_save_ok e"
      "fst (getPlaceName e (b ''latitude'') (b ''longitude'') s) = Some v"
      "castString v = Some n"
      by auto
    from post_shop_succeeds [OF h]
    show "\<exists>d s'. post_shop e r s = (Some (Response 201 (Doc d)), s')" by blast
  qed
next
  show "post_shop e r s = (Some (Response 201 (Doc d)), s') \<and> db_find_ok e'
      \<and> req_params_id g = id_shop d \<longrightarrow>
      get_shop e' g s' = (Response 200 (Doc d), call (FindOne (id_shop d)) s')
      \<and> id_shop d \<noteq> [] \<and> timestamp d \<noteq> [] \<and> placeName (location d) \<noteq> []
      \<and> photo d = (case req_file r of Some filename \<Rightarrow> ''/uploads/'' @ filename | None \<Rightarrow> [])
      \<and> ownerName d = body_field r ''ownerName''
      \<and> contactNumber d = body_field r ''contactNumber''
      \<and> shopNumber d = body_field r ''shopNumber''
      \<and> address d = body_field r ''address''
      \<and> description d = body_field r ''description''
      \<and> latitude (location d) = body_field r ''latitude''
      \<and> longitude (location d) = body_field r ''longitude''"
  proof (intro impI, elim conjE)
    assume run: "post_shop e r s = (Some (Response 201 (Doc d)), s')"
      and find: "db_find_ok e'" and g: "req_params_id g = id_shop d"
    from post_shop_created [OF run] obtain v n
      where v: "fst (getPlaceName e (body_field r ''latitude'')
            (body_field r ''longitude'') s) = Some v"
        and n: "castString v = Some n" and d: "d = post_doc e r n"
        and ok: "validate d"
        and new: "id_shop d \<notin> set (map id_shop (shops s))"
        and s': "shops s' = shops s @ [d]"
      by blast
    have "findOne (id_shop d) (shops s') = Some (length (shops s), d)"
      unfolding s' using new by (rule findOne_append_new) simp
    with find g
    have "get_shop e' g s' = (Response 200 (Doc d), call (FindOne (id_shop d)) s')"
      by (simp add: get_shop_def Shop_findOne_def)
    moreover from ok have "id_shop d \<noteq> [] \<and> timestamp d \<noteq> []" by (simp add: validate_def)
    moreover
    from castString_nonempty [OF getPlaceName_truthy [OF v] n]
    have "placeName (location d) \<noteq> []"
      unfolding d by (simp add: post_doc_def)
    moreover
    have "photo d = (case req_file r of Some filename \<Rightarrow> ''/uploads/'' @ filename | None \<Rightarrow> [])
      \<and> ownerName d = body_field r ''ownerName''
      \<and> contactNumber d = body_field r ''contactNumber''
      \<and> shopNumber d = body_field r ''shopNumber''
      \<and> address d = body_field r ''address''
      \<and> description d = body_field r ''description''
      \<and> latitude (location d) = body_field r ''latitude''
      \<and> longitude (location d) = body_field r ''longitude''"
      unfolding d by (simp add: post_doc_def)
    ultimately
    show "get_shop e' g s' = (Response 200 (Doc d), call (FindOne (id_shop d)) s')
      \<and> id_shop d \<noteq> [] \<and> timestamp d \<noteq> [] \<and> placeName (location d) \<noteq> []
      \<and> photo d = (case req_file r of Some filename \<Rightarrow> ''/uploads/'' @ filename | None \<Rightarrow> [])
      \<and> ownerName d = body_field r ''ownerName''
      \<and> contactNumber d = body_field r ''contactNumber''
      \<and> shopNumber d = body_field r ''shopNumber''
      \<and> address d = body_field r ''address''
      \<and> description d = body_field r ''description''
      \<and> latitude (location d) = body_field r ''latitude''
      \<and> longitude (location d) = body_field r ''longitude''"
      by simp
  qed
qed

theorem create_then_get_witness:
  "req_body example_create = Some example_body \<and> valid_body example_body
   \<and> uuidv4 example_env \<noteq> []
   \<and> uuidv4 example_env \<notin> set (map id_shop (shops example_world))
   \<and> db_save_ok example_env
   \<and> fst (getPlaceName example_env (example_body ''latitude'') (example_body ''longitude'')
        example_world) = Some (JString ''London, UK'')
   \<and> castString (JString ''London, UK'') \<noteq> None
   \<and> post_shop example_env example_create example_world =
     (Some (Response 201 (Doc example_created)),
      \<lparr> shops = [example_shop, example_created], files = files example_world,
        calls = [GeoRequest (Some ''51.5074'') (Some ''-0.1278''), Save example_created] \<rparr>)
   \<and> db_find_ok example_env
   \<and> req_params_id \<lparr>req_params_id = ''9b2e'', req_body = None, req_file = None\<rparr> =
       id_shop example_created
   \<and> fst (get_shop example_env \<lparr>req_params_id = ''9b2e'', req_body = None, req_file = None\<rparr>
        \<lparr> shops = [example_shop, example_created], files = files example_world,
          calls = [GeoRequest (Some ''51.5074'') (Some ''-0.1278''), Save example_created] \<rparr>) =
       Response 200 (Doc example_created)
   \<and> placeName (location example_created) \<noteq> []"
proof -
  have v: "valid_body example_body"
    by (simp add: valid_body_def required_def)
  have f: "uuidv4 example_env \<notin> set (map id_shop (shops example_world))"
    by (simp add: example_world_def example_shop_def)
  have l: "fst (getPlaceName example_env (example_body ''latitude'')
      (example_body ''longitude'') example_world) = Some (JString ''London, UK'')"
    by (simp add: example_London)
  show ?thesis
    using v f l example_create_run
      create_then_get [of example_env example_create example_world example_created
        "\<lparr> shops = [example_shop, example_created], files = files example_world,
          calls = [GeoRequest (Some ''51.5074'') (Some ''-0.1278''), Save example_created] \<rparr>"
        example_env "\<lparr>req_params_id = ''9b2e'', req_body = None, req_file = None\<rparr>"]
    by (simp add: example_created_def)
qed

subsection \<open>C8: removing a photo\<close>

text \<open>
  C8. Removing the photo behind a reference never throws. For a non-empty reference the
  file is gone afterwards, whether it existed or not; when the file does not exist the
  files are left as they are; and removing a second time changes nothing more and does
  not throw either. (The empty reference stands for "no photo": nothing is looked up.)
\<close>

theorem remove_photo_idempotent:
  "fst (remove_photo ref s) = Resolves ()
   \<and> (ref \<noteq> [] \<longrightarrow> files (snd (remove_photo ref s)) = files s - {public_path ref})
   \<and> (public_path ref \<notin> files s \<longrightarrow> files (snd (remove_photo ref s)) = files s)
   \<and> shops (snd (remove_photo ref s)) = shops s
   \<and> fst (remove_photo ref (snd (remove_photo ref s))) = Resolves ()
   \<and> files (snd (remove_photo ref (snd (remove_photo ref s)))) = files (snd (remove_photo ref s))
   \<and> shops (snd (remove_photo ref (snd (remove_photo ref s)))) = shops s"
  by (simp add: remove_photo_resolves remove_photo_files)

theorem remove_photo_idempotent_witness:
  "''/uploads/1700000000000.png'' \<noteq> []
   \<and> public_path ''/uploads/1700000000000.png'' \<in> files example_world
   \<and> fst (remove_photo ''/uploads/1700000000000.png'' example_world) = Resolves ()
   \<and> files (snd (remove_photo ''/uploads/1700000000000.png'' example_world)) =
        {''public/uploads/1700000123456.jpg''}
   \<and> public_path ''/uploads/1700000000000.png''
        \<notin> files (snd (remove_photo ''/uploads/1700000000000.png'' example_world))
   \<and> fst (remove_photo ''/uploads/1700000000000.png''
         (snd (remove_photo ''/uploads/1700000000000.png'' example_world))) = Resolves ()
   \<and> files (snd (remove_photo ''/uploads/1700000000000.png''
         (snd (remove_photo ''/uploads/1700000000000.png'' example_world)))) =
        {''public/uploads/1700000123456.jpg''}"
  using remove_photo_idempotent [of "''/uploads/1700000000000.png''" example_world]
    remove_photo_idempotent [of "''/uploads/1700000000000.png''"
      "snd (remove_photo ''/uploads/1700000000000.png'' example_world)"]
  by (simp add: public_path_def example_world_def)

subsection \<open>C9: the timestamp\<close>

text \<open>
  C9. The document a successful create or a successful update returns is stored, and its
  timestamp is the clock reading of that request in node-datetime's format
  \<^verbatim>\<open>Y-m-d H:M:S\<close>; for a calendar date with a four-digit year this has the shape
  \<^verbatim>\<open>YYYY-MM-DD HH:MM:SS\<close>. The timestamp the document had before plays no part.
\<close>

theorem timestamp_refreshed:
  "(post_shop e r s = (Some (Response 201 (Doc d)), s') \<longrightarrow>
      timestamp d = format_YmdHMS (now e) \<and> d \<in> set (shops s')
      \<and> (calendar (now e) \<longrightarrow> is_YmdHMS (timestamp d)))
   \<and> (put_shop e2 r2 s2 = (Some (Response 200 (Doc d2)), s2') \<longrightarrow>
      timestamp d2 = format_YmdHMS (now e2) \<and> d2 \<in> set (shops s2')
      \<and> (calendar (now e2) \<longrightarrow> is_YmdHMS (timestamp d2)))"
proof (intro conjI impI)
  assume run: "post_shop e r s = (Some (Response 201 (Doc d)), s')"
  from post_shop_created [OF run] obtain n where d: "d = post_doc e r n"
    and s': "shops s' = shops s @ [d]"
    by blast
  show t: "timestamp d = format_YmdHMS (now e)" unfolding d by (simp add: post_doc_def)
  from s' show "d \<in> set (shops s')" by simp
  assume "calendar (now e)"
  then show "is_YmdHMS (timestamp d)" by (simp add: t format_shape)
next
  assume run: "put_shop e2 r2 s2 = (Some (Response 200 (Doc d2)), s2')"
  show t: "timestamp d2 = format_YmdHMS (now e2)" by (rule put_shop_timestamp [OF run])
  show "d2 \<in> set (shops s2')" by (rule put_shop_stored [OF run])
  assume "calendar (now e2)"
  then show "is_YmdHMS (timestamp d2)" by (simp add: t format_shape)
qed

theorem timestamp_refreshed_witness:
  "post_shop example_env example_create example_world =
     (Some (Response 201 (Doc example_created)),
      \<lparr> shops = [example_shop, example_created], files = files example_world,
        calls = [GeoRequest (Some ''51.5074'') (Some ''-0.1278''), Save example_created] \<rparr>)
   \<and> put_shop example_env example_update example_world =
       (Some (Response 200 (Doc example_updated)),
        \<lparr> shops = [example_updated], files = files example_world,
          calls = [FindOne ''7f3c'', GeoRequest (Some ''51.5074'') (Some ''-0.1278''),
                   Save example_updated] \<rparr>)
   \<and> calendar (now example_env)
   \<and> format_YmdHMS (now example_env) = ''2024-03-09 14:05:00''
   \<and> timestamp example_created = ''2024-03-09 14:05:00''
   \<and> timestamp example_updated = ''2024-03-09 14:05:00''
   \<and> timestamp example_shop = ''2023-11-14 22:13:20''
   \<and> is_YmdHMS (timestamp example_created)
   \<and> is_YmdHMS (timestamp example_updated)"
proof -
  have c: "calendar (now example_env)" by (simp add: calendar_def example_env_def)
  have old: "timestamp example_shop = ''2023-11-14 22:13:20''" by (simp add: example_shop_def)
  note t = timestamp_refreshed [of example_env example_create example_world example_created
        "\<lparr> shops = [example_shop, example_created], files = files example_world,
          calls = [GeoRequest (Some ''51.5074'') (Some ''-0.1278''), Save example_created] \<rparr>"
        example_env example_update example_world example_updated
        "\<lparr> shops = [example_updated], files = files example_world,
          calls = [FindOne ''7f3c'', GeoRequest (Some ''51.5074'') (Some ''-0.1278''),
                   Save example_updated] \<rparr>", unfolded example_format]
  from t c old example_create_run example_update_run example_format show ?thesis by blast
qed

subsection \<open>C10: update without a photo\<close>

text \<open>
  C10. An update that carries no photo makes no call to the filesystem and leaves the
  files as they are, whatever its outcome, and no stored document changes its photo
  reference. When it succeeds on the found document, the returned and stored document has
  the photo reference of before; its owner, contact, shop number, address, description
  and coordinates are the ones of the request, its place name is the one resolved for
  them (as the schema casts it to a string) and its timestamp is the one of the clock.
\<close>

theorem put_without_file:
  assumes "req_file r = None"
  shows "files (snd (put_shop e r s)) = files s
    \<and> filter fs_event (calls (snd (put_shop e r s))) = filter fs_event (calls s)
    \<and> map photo (shops (snd (put_shop e r s))) = map photo (shops s)
    \<and> (put_shop e r s = (Some (Response 200 (Doc d)), s') \<longrightarrow>
        (\<exists>k d0. findOne (req_params_id r) (shops s) = Some (k, d0) \<and> photo d = photo d0
           \<and> shops s' = (shops s)[k := d])
        \<and> ownerName d = body_field r ''ownerName''
        \<and> contactNumber d = body_field r ''contactNumber''
        \<and> shopNumber d = body_field r ''shopNumber''
        \<and> address d = body_field r ''address''
        \<and> description d = body_field r ''description''
        \<and> latitude (location d) = body_field r ''latitude''
        \<and> longitude (location d) = body_field r ''longitude''
        \<and> (\<exists>v. fst (getPlaceName e (body_field r ''latitude'') (body_field r ''longitude'') s)
              = Some v
            \<and> castString v = Some (placeName (location d))
            \<and> (is_string v \<longrightarrow> v = JString (placeName (location d))))
        \<and> timestamp d = format_YmdHMS (now e))"
proof -
  let ?i = "req_params_id r"
  have frame: "files (snd (put_shop e r s)) = files s
    \<and> filter fs_event (calls (snd (put_shop e r s))) = filter fs_event (calls s)
    \<and> map photo (shops (snd (put_shop e r s))) = map photo (shops s)"
  proof (cases "db_find_ok e")
    case False
    then show ?thesis by (simp add: put_shop_def Shop_findOne_def)
  next
    case True
    show ?thesis
    proof (cases "findOne ?i (shops s)")
      case None
      with True show ?thesis by (simp add: put_shop_def Shop_findOne_def)
    next
      case (Some a)
      then obtain k d0 where f: "findOne ?i (shops s) = Some (k, d0)" by (cases a) simp
      from findOne_SomeD [OF f] have k: "k < length (shops s)" "shops s ! k = d0" by simp_all
      have "map photo ((shops s)[k := put_doc e r n d0]) = map photo (shops s)" for n
        using k assms by (intro map_update_same) (simp_all add: put_doc_def)
      with assms show ?thesis
        by (simp add: put_shop_eq [OF True f] Let_def put_finish_world
            split: option.splits)
    qed
  qed
  have ok: "(\<exists>k d0. findOne (req_params_id r) (shops s) = Some (k, d0) \<and> photo d = photo d0
           \<and> shops s' = (shops s)[k := d])
        \<and> ownerName d = body_field r ''ownerName''
        \<and> contactNumber d = body_field r ''contactNumber''
        \<and> shopNumber d = body_field r ''shopNumber''
        \<and> address d = body_field r ''address''
        \<and> description d = body_field r ''description''
        \<and> latitude (location d) = body_field r ''latitude''
        \<and> longitude (location d) = body_field r ''longitude''
        \<and> (\<exists>v. fst (getPlaceName e (body_field r ''latitude'') (body_field r ''longitude'') s)
              = Some v
            \<and> castString v = Some (placeName (location d))
            \<and> (is_string v \<longrightarrow> v = JString (placeName (location d))))
        \<and> timestamp d = format_YmdHMS (now e)"
    if run: "put_shop e r s = (Some (Response 200 (Doc d)), s')"
  proof -
    from put_shop_updated [OF run] obtain k d0 v n
      where f: "findOne ?i (shops s) = Some (k, d0)"
        and v: "fst (getPlaceName e (body_field r ''latitude'')
            (body_field r ''longitude'') s) = Some v"
        and n: "castString v = Some n"
        and d: "d = put_doc e r n d0"
        and s': "shops s' = (shops s)[k := d]"
      by blast
    have d': "d = put_fields e r n d0" using d assms by (simp add: put_doc_def)
    have p: "photo d = photo d0" by (simp add: d')
    have fields: "ownerName d = body_field r ''ownerName''"
      "contactNumber d = body_field r ''contactNumber''"
      "shopNumber d = body_field r ''shopNumber''"
      "address d = body_field r ''address''"
      "description d = body_field r ''description''"
      "latitude (location d) = body_field r ''latitude''"
      "longitude (location d) = body_field r ''longitude''"
      "placeName (location d) = n"
      "timestamp d = format_YmdHMS (now e)"
      by (simp_all add: d' put_fields_def)
    have "is_string v \<longrightarrow> v = JString n" using n by (cases v) simp_all
    with v n fields(8)
    have "\<exists>v. fst (getPlaceName e (body_field r ''latitude'') (body_field r ''longitude'') s)
              = Some v
            \<and> castString v = Some (placeName (location d))
            \<and> (is_string v \<longrightarrow> v = JString (placeName (location d)))"
      by simp
    with p fields f s' show ?thesis by simp
  qed
  from frame ok show ?thesis by blast
qed

theorem put_without_file_witness:
  "req_file example_update = None
   \<and> put_shop example_env example_update example_world =
       (Some (Response 200 (Doc example_updated)),
        \<lparr> shops = [example_updated], files = files example_world,
          calls = [FindOne ''7f3c'', GeoRequest (Some ''51.5074'') (Some ''-0.1278''),
                   Save example_updated] \<rparr>)
   \<and> photo example_updated = photo example_shop
   \<and> ownerName example_updated = Some ''Bob''
   \<and> ownerName example_shop = Some ''Ann''
   \<and> filter fs_event (calls (snd (put_shop example_env example_update example_world))) = []"
  using put_without_file [of example_update example_env example_world example_updated
      "\<lparr> shops = [example_updated], files = files example_world,
          calls = [FindOne ''7f3c'', GeoRequest (Some ''51.5074'') (Some ''-0.1278''),
                   Save example_updated] \<rparr>"]
    example_update_run
  by (simp add: example_update_def example_updated_def example_created_def example_shop_def
      example_world_def)

end
